theory Spec2Isabelle
  imports Complex_Main
begin

section \<open>Tensor elements\<close>

text \<open>
  A tensor element is a real number or one of the three special values of floating-point
  arithmetic. The special values follow IEEE 754 (\<open>inf - inf\<close>, \<open>0 * inf\<close> and
  \<open>0 / 0\<close> are NaN, NaN is absorbing). The operations \<open>fadd\<close>, \<open>fmul\<close>, \<open>fdiv\<close>,
  \<open>fexp\<close>, \<open>flog\<close> and \<open>ftanh\<close> give the exact result on finite values; the operations of
  float32 tensors round it (\<open>add32\<close>, \<open>mul32\<close> and the others, further down). The sign of
  zero is outside the model.
\<close>

datatype fl = Fin real | PInf | NInf | NaN

type_synonym tensor = "fl list"

fun is_finite :: "fl \<Rightarrow> bool" where
  "is_finite (Fin _) = True"
| "is_finite _ = False"

fun is_nan :: "fl \<Rightarrow> bool" where
  "is_nan NaN = True"
| "is_nan _ = False"

fun fneg :: "fl \<Rightarrow> fl" where
  "fneg (Fin a) = Fin (- a)"
| "fneg PInf = NInf"
| "fneg NInf = PInf"
| "fneg NaN = NaN"

fun fadd :: "fl \<Rightarrow> fl \<Rightarrow> fl" where
  "fadd (Fin a) (Fin b) = Fin (a + b)"
| "fadd NaN _ = NaN"
| "fadd _ NaN = NaN"
| "fadd PInf NInf = NaN"
| "fadd NInf PInf = NaN"
| "fadd PInf _ = PInf"
| "fadd _ PInf = PInf"
| "fadd NInf _ = NInf"
| "fadd _ NInf = NInf"

definition fsub :: "fl \<Rightarrow> fl \<Rightarrow> fl" where
  "fsub a b = fadd a (fneg b)"

text \<open>The product of an infinity of sign \<open>pos\<close> with a finite factor.\<close>

definition inf_times :: "bool \<Rightarrow> real \<Rightarrow> fl" where
  "inf_times pos b =
     (if b = 0 then NaN else if (0 < b) = pos then PInf else NInf)"

fun fmul :: "fl \<Rightarrow> fl \<Rightarrow> fl" where
  "fmul (Fin a) (Fin b) = Fin (a * b)"
| "fmul NaN _ = NaN"
| "fmul _ NaN = NaN"
| "fmul PInf (Fin b) = inf_times True b"
| "fmul NInf (Fin b) = inf_times False b"
| "fmul (Fin a) PInf = inf_times True a"
| "fmul (Fin a) NInf = inf_times False a"
| "fmul PInf PInf = PInf"
| "fmul NInf NInf = PInf"
| "fmul PInf NInf = NInf"
| "fmul NInf PInf = NInf"

fun fdiv :: "fl \<Rightarrow> fl \<Rightarrow> fl" where
  "fdiv (Fin a) (Fin b) =
     (if b = 0 then (if a = 0 then NaN else if 0 < a then PInf else NInf)
      else Fin (a / b))"
| "fdiv NaN _ = NaN"
| "fdiv _ NaN = NaN"
| "fdiv (Fin a) _ = Fin 0"
| "fdiv PInf (Fin b) = (if 0 \<le> b then PInf else NInf)"
| "fdiv NInf (Fin b) = (if 0 \<le> b then NInf else PInf)"
| "fdiv _ _ = NaN"

text \<open>The comparisons of IEEE 754: every comparison with NaN is false.\<close>

fun flt :: "fl \<Rightarrow> fl \<Rightarrow> bool" where
  "flt (Fin a) (Fin b) = (a < b)"
| "flt NaN _ = False"
| "flt _ NaN = False"
| "flt _ NInf = False"
| "flt PInf _ = False"
| "flt _ _ = True"

definition fle :: "fl \<Rightarrow> fl \<Rightarrow> bool" where
  "fle a b = (\<not> is_nan a \<and> \<not> is_nan b \<and> \<not> flt b a)"

text \<open>\<open>torch.min\<close>, \<open>torch.clamp\<close> and \<open>F.relu\<close> propagate NaN.\<close>

definition fmin :: "fl \<Rightarrow> fl \<Rightarrow> fl" where
  "fmin a b = (if is_nan a \<or> is_nan b then NaN else if flt b a then b else a)"

definition fmax :: "fl \<Rightarrow> fl \<Rightarrow> fl" where
  "fmax a b = (if is_nan a \<or> is_nan b then NaN else if flt a b then b else a)"

definition clamp :: "fl \<Rightarrow> fl \<Rightarrow> fl \<Rightarrow> fl" where
  "clamp x lo hi = fmin (fmax x lo) hi"

definition relu :: "fl \<Rightarrow> fl" where
  "relu x = fmax x (Fin 0)"

fun fexp :: "fl \<Rightarrow> fl" where
  "fexp (Fin a) = Fin (exp a)"
| "fexp PInf = PInf"
| "fexp NInf = Fin 0"
| "fexp NaN = NaN"

fun flog :: "fl \<Rightarrow> fl" where
  "flog (Fin a) = (if 0 < a then Fin (ln a) else if a = 0 then NInf else NaN)"
| "flog PInf = PInf"
| "flog _ = NaN"

fun ftanh :: "fl \<Rightarrow> fl" where
  "ftanh (Fin a) = Fin (tanh a)"
| "ftanh PInf = Fin 1"
| "ftanh NInf = Fin (- 1)"
| "ftanh NaN = NaN"

definition fsum :: "tensor \<Rightarrow> fl" where
  "fsum xs = foldl fadd (Fin 0) xs"

text \<open>\<open>Tensor.mean\<close>: the sum divided by the number of elements (NaN when empty).\<close>

definition fmean :: "tensor \<Rightarrow> fl" where
  "fmean xs = fdiv (fsum xs) (Fin (real (length xs)))"

subsection \<open>Rounding\<close>

text \<open>
  \<open>round_to p emin emax\<close> rounds a real number to the binary floating-point format with
  \<open>p\<close> significant bits and exponents from \<open>emin\<close> to \<open>emax\<close>: to the nearest number of
  the format, a tie to the one with the even significand, with gradual underflow below
  \<open>2 ^ emin\<close> and overflow to an infinity. \<open>round32\<close> is the rounding of float32 and
  \<open>round64\<close> that of the floats of Python.
\<close>

definition round_even :: "real \<Rightarrow> int" where
  "round_even r =
     (let f = \<lfloor>r\<rfloor>
      in if r - of_int f < 1 / 2 then f
         else if 1 / 2 < r - of_int f then f + 1
         else if even f then f else f + 1)"

definition round_to :: "nat \<Rightarrow> int \<Rightarrow> int \<Rightarrow> real \<Rightarrow> fl" where
  "round_to p emin emax x =
     (if x = 0 then Fin 0
      else let e = max \<lfloor>log 2 \<bar>x\<bar>\<rfloor> emin;
               u = 2 powi (e - int p + 1);
               q = of_int (round_even (x / u)) * u
           in if 2 powi (emax + 1) \<le> \<bar>q\<bar> then (if 0 < x then PInf else NInf) else Fin q)"

definition round32 :: "real \<Rightarrow> fl" where
  "round32 = round_to 24 (- 126) 127"

definition round64 :: "real \<Rightarrow> fl" where
  "round64 = round_to 53 (- 1022) 1023"

fun rnd32 :: "fl \<Rightarrow> fl" where
  "rnd32 (Fin a) = round32 a"
| "rnd32 PInf = PInf"
| "rnd32 NInf = NInf"
| "rnd32 NaN = NaN"

fun rnd64 :: "fl \<Rightarrow> fl" where
  "rnd64 (Fin a) = round64 a"
| "rnd64 PInf = PInf"
| "rnd64 NInf = NInf"
| "rnd64 NaN = NaN"

text \<open>
  The operations of float32 tensors: the exact result, rounded once. The exponential, the
  logarithm and the hyperbolic tangent of the tensor library are taken as correctly
  rounded, and \<open>Tensor.sum\<close> as adding from left to right.
\<close>

definition add32 :: "fl \<Rightarrow> fl \<Rightarrow> fl" where
  "add32 a b = rnd32 (fadd a b)"

definition sub32 :: "fl \<Rightarrow> fl \<Rightarrow> fl" where
  "sub32 a b = rnd32 (fsub a b)"

definition mul32 :: "fl \<Rightarrow> fl \<Rightarrow> fl" where
  "mul32 a b = rnd32 (fmul a b)"

definition div32 :: "fl \<Rightarrow> fl \<Rightarrow> fl" where
  "div32 a b = rnd32 (fdiv a b)"

definition exp32 :: "fl \<Rightarrow> fl" where
  "exp32 a = rnd32 (fexp a)"

definition log32 :: "fl \<Rightarrow> fl" where
  "log32 a = rnd32 (flog a)"

definition tanh32 :: "fl \<Rightarrow> fl" where
  "tanh32 a = rnd32 (ftanh a)"

definition sum32 :: "tensor \<Rightarrow> fl" where
  "sum32 xs = foldl add32 (Fin 0) xs"

text \<open>
  The policy (its buffers, its sample, its action and its log-probability) and the Polyak
  update are modelled with the rounded operations. The layers of the networks, the losses
  and the composition of the reward are modelled with the exact ones: what is proved of
  them (which values are passed where, what is copied, what is logged, that \<open>x + 0 * k\<close>
  is \<open>x\<close>) holds with and without rounding.
\<close>

section \<open>Errors\<close>

datatype error =
  ValueError | KeyError | AttributeError | RuntimeError | AssertionError | TypeError | IndexError

definition bind :: "error + 'a \<Rightarrow> ('a \<Rightarrow> error + 'b) \<Rightarrow> error + 'b" where
  "bind m f = (case m of Inl e \<Rightarrow> Inl e | Inr v \<Rightarrow> f v)"

section \<open>Environment\<close>

text \<open>
  The observation space is a \<open>Box\<close> with a shape or a \<open>Dict\<close> of such boxes; the
  action space is a \<open>Box\<close> with its shape and bounds. The simulator behind the
  environment is the state \<open>world\<close>.
\<close>

datatype space = Box "nat list" | Dict "(string \<times> nat list) list"

record 'w env =
  observation_space :: space
  action_shape :: "nat list"
  action_low :: tensor
  action_high :: tensor
  num_envs :: nat
  world :: 'w

section \<open>Networks\<close>

text \<open>
  A random generator is the stream of the values it will yield; \<open>draw n\<close> takes the next
  \<open>n\<close> of them. A fresh \<open>nn.Linear\<close> layer takes its weights and biases from it.
\<close>

type_synonym rng = "nat \<Rightarrow> real"

definition draw :: "nat \<Rightarrow> rng \<Rightarrow> tensor \<times> rng" where
  "draw n g = (map (\<lambda>i. Fin (g i)) [0..<n], \<lambda>i. g (i + n))"

text \<open>
  \<open>nn.Linear\<close>: the weight of shape \<open>[out, in]\<close> is stored row by row. Shapes are fixed
  by the constructors below; shape errors of the tensor library are not modelled.
\<close>

record linear =
  in_features :: nat
  weight :: tensor
  bias :: tensor

definition Linear :: "nat \<Rightarrow> nat \<Rightarrow> rng \<Rightarrow> linear \<times> rng" where
  "Linear n_in n_out g =
     (let (w, g1) = draw (n_out * n_in) g;
          (b, g2) = draw n_out g1
      in (\<lparr>in_features = n_in, weight = w, bias = b\<rparr>, g2))"

definition linear_apply :: "linear \<Rightarrow> tensor \<Rightarrow> tensor" where
  "linear_apply l x =
     map (\<lambda>j. fadd (fsum (map2 fmul x (take (in_features l) (drop (j * in_features l) (weight l)))))
                    (bias l ! j))
         [0..<length (bias l)]"

definition LOG_STD_MAX :: fl where
  "LOG_STD_MAX = Fin 2"

definition LOG_STD_MIN :: fl where
  "LOG_STD_MIN = Fin (- 20)"

fun obs_shape :: "space \<Rightarrow> nat" where
  "obs_shape (Dict spaces) = sum_list (concat (map snd spaces))"
| "obs_shape (Box shape) = sum_list shape"

datatype actor = Actor linear linear linear linear linear tensor tensor

fun action_scale :: "actor \<Rightarrow> tensor" where
  "action_scale (Actor fc1 fc2 fc3 fc_mean fc_logstd a_scale a_bias) = a_scale"

fun action_bias :: "actor \<Rightarrow> tensor" where
  "action_bias (Actor fc1 fc2 fc3 fc_mean fc_logstd a_scale a_bias) = a_bias"

text \<open>
  The buffers \<open>action_scale\<close> and \<open>action_bias\<close> are computed by NumPy from the bounds of
  the action space, in the float32 of a \<open>Box\<close>: \<open>(high - low) / 2.0\<close> and
  \<open>(high + low) / 2.0\<close>, each operation rounded.
\<close>

definition Actor_init :: "'w env \<Rightarrow> nat \<Rightarrow> rng \<Rightarrow> actor \<times> rng" where
  "Actor_init env hidden_size g =
     (let n_obs = obs_shape (observation_space env);
          (fc1, g1) = Linear n_obs hidden_size g;
          (fc2, g2) = Linear hidden_size hidden_size g1;
          (fc3, g3) = Linear hidden_size hidden_size g2;
          (fc_mean, g4) = Linear hidden_size (prod_list (action_shape env)) g3;
          (fc_logstd, g5) = Linear hidden_size (prod_list (action_shape env)) g4
      in (Actor fc1 fc2 fc3 fc_mean fc_logstd
            (map2 (\<lambda>h l. div32 (sub32 h l) (Fin 2)) (action_high env) (action_low env))
            (map2 (\<lambda>h l. div32 (add32 h l) (Fin 2)) (action_high env) (action_low env)),
          g5))"

fun forward_row :: "actor \<Rightarrow> tensor \<Rightarrow> tensor \<times> tensor" where
  "forward_row (Actor fc1 fc2 fc3 fc_mean fc_logstd a_scale a_bias) x =
     (let x1 = map relu (linear_apply fc1 x);
          x2 = map relu (linear_apply fc2 x1);
          x3 = map relu (linear_apply fc3 x2);
          mean = linear_apply fc_mean x3;
          log_std = linear_apply fc_logstd x3;
          log_std = map (\<lambda>v. clamp v LOG_STD_MIN LOG_STD_MAX) log_std
      in (mean, log_std))"

text \<open>\<open>Actor.forward\<close> on a batch: one row per sample.\<close>

definition forward :: "actor \<Rightarrow> tensor list \<Rightarrow> tensor list \<times> tensor list" where
  "forward a x = (map (fst \<circ> forward_row a) x, map (snd \<circ> forward_row a) x)"

text \<open>
  \<open>torch.distributions.Normal\<close> over a batch. It validates its arguments when it is
  built (\<open>loc\<close> must not be NaN, \<open>scale\<close> must be positive) and the sample given to
  \<open>log_prob\<close> (not NaN), and raises \<open>ValueError\<close> otherwise.
\<close>

record normal =
  loc :: "tensor list"
  scale :: "tensor list"

definition Normal :: "tensor list \<Rightarrow> tensor list \<Rightarrow> error + normal" where
  "Normal mean std =
     (if list_all (list_all (\<lambda>v. \<not> is_nan v)) mean \<and> list_all (list_all (flt (Fin 0))) std
      then Inr \<lparr>loc = mean, scale = std\<rparr> else Inl ValueError)"

text \<open>
  \<open>rsample\<close>: \<open>loc + eps * scale\<close>, where \<open>eps i j\<close> is the standard normal noise drawn for
  element \<open>j\<close> of row \<open>i\<close>.
\<close>

definition rsample :: "normal \<Rightarrow> (nat \<Rightarrow> nat \<Rightarrow> real) \<Rightarrow> tensor list" where
  "rsample d eps =
     map (\<lambda>(i, m, s). map (\<lambda>(j, mj, sj). add32 mj (mul32 (Fin (eps i j)) sj)) (enumerate 0 (zip m s)))
         (enumerate 0 (zip (loc d) (scale d)))"

text \<open>
  \<open>Normal.log_prob\<close> for one element:
  \<open>-((value - loc) ** 2) / (2 * var) - log_scale - math.log(math.sqrt(2 * math.pi))\<close> with
  \<open>var = scale ** 2\<close> and \<open>log_scale = scale.log()\<close>. The last term is a Python float; a
  float32 tensor takes it as the float32 number \<open>log_sqrt_2pi\<close>.
\<close>

definition log_sqrt_2pi :: fl where
  "log_sqrt_2pi = Fin (7708615 / 2 ^ 23)"

definition log_prob1 :: "fl \<Rightarrow> fl \<Rightarrow> fl \<Rightarrow> fl" where
  "log_prob1 m s v =
     (let var = mul32 s s;
          log_scale = log32 s
      in sub32 (sub32 (div32 (fneg (mul32 (sub32 v m) (sub32 v m))) (mul32 (Fin 2) var)) log_scale)
               log_sqrt_2pi)"

definition log_prob :: "normal \<Rightarrow> tensor list \<Rightarrow> error + tensor list" where
  "log_prob d v =
     (if list_all (list_all (\<lambda>u. \<not> is_nan u)) v
      then Inr (map (\<lambda>(vr, m, s). map (\<lambda>(vj, mj, sj). log_prob1 mj sj vj) (zip vr (zip m s)))
                    (zip v (zip (loc d) (scale d))))
      else Inl ValueError)"

text \<open>
  \<open>Actor.get_action\<close>. The constant \<open>1e-6\<close> of the correction is a Python float; added to
  a float32 tensor it is the float32 number \<open>epsilon\<close>.
\<close>

definition epsilon :: fl where
  "epsilon = Fin (8796093 / 2 ^ 43)"

definition get_action ::
  "actor \<Rightarrow> tensor list \<Rightarrow> (nat \<Rightarrow> nat \<Rightarrow> real) \<Rightarrow> error + tensor list \<times> tensor list" where
  "get_action a x eps =
     (let (mean, log_std) = forward a x;
          std = map (map exp32) log_std
      in bind (Normal mean std) (\<lambda>normal.
           let x_t = rsample normal eps;
               y_t = map (map tanh32) x_t;
               action = map (\<lambda>y. map2 add32 (map2 mul32 y (action_scale a)) (action_bias a)) y_t
           in bind (log_prob normal x_t) (\<lambda>lp.
                let lp = map2 (\<lambda>l y. map2 sub32 l
                                 (map (\<lambda>(yj, sj).
                                         log32 (add32 (mul32 sj (sub32 (Fin 1) (mul32 yj yj)))
                                                      epsilon))
                                      (zip y (action_scale a))))
                           lp y_t
                in Inr (action, map (\<lambda>l. [sum32 l]) lp))))"

datatype critic = Critic linear linear linear linear

definition Critic_init :: "'w env \<Rightarrow> nat \<Rightarrow> rng \<Rightarrow> critic \<times> rng" where
  "Critic_init env hidden_size g =
     (let n_obs = obs_shape (observation_space env);
          (fc1, g1) = Linear (n_obs + prod_list (action_shape env)) hidden_size g;
          (fc2, g2) = Linear hidden_size hidden_size g1;
          (fc3, g3) = Linear hidden_size hidden_size g2;
          (fc4, g4) = Linear hidden_size 1 g3
      in (Critic fc1 fc2 fc3 fc4, g4))"

fun critic_forward_row :: "critic \<Rightarrow> tensor \<Rightarrow> tensor \<Rightarrow> tensor" where
  "critic_forward_row (Critic fc1 fc2 fc3 fc4) x a =
     (let x = x @ a;
          x = map relu (linear_apply fc1 x);
          x = map relu (linear_apply fc2 x);
          x = map relu (linear_apply fc3 x);
          x = linear_apply fc4 x
      in x)"

definition critic_forward :: "critic \<Rightarrow> tensor list \<Rightarrow> tensor list \<Rightarrow> tensor list" where
  "critic_forward c x a = map2 (critic_forward_row c) x a"

text \<open>\<open>CriticEnsemble\<close>: the list \<open>_critics\<close>, built one critic after the other.\<close>

fun CriticEnsemble_init :: "'w env \<Rightarrow> nat \<Rightarrow> nat \<Rightarrow> rng \<Rightarrow> critic list \<times> rng" where
  "CriticEnsemble_init env 0 hidden_size g = ([], g)"
| "CriticEnsemble_init env (Suc n) hidden_size g =
     (let (c, g1) = Critic_init env hidden_size g;
          (cs, g2) = CriticEnsemble_init env n hidden_size g1
      in (c # cs, g2))"

text \<open>\<open>torch.stack\<close> raises on an empty list.\<close>

definition ensemble_forward ::
  "critic list \<Rightarrow> tensor list \<Rightarrow> tensor list \<Rightarrow> error + tensor list list" where
  "ensemble_forward cs x a =
     (if cs = [] then Inl RuntimeError else Inr (map (\<lambda>c. critic_forward c x a) cs))"

text \<open>\<open>torch.min(..., dim=0).values\<close> over the ensemble axis of a stacked, non-empty result.\<close>

fun min_dim0 :: "tensor list list \<Rightarrow> tensor list" where
  "min_dim0 [] = []"
| "min_dim0 (q # qs) = foldl (map2 (map2 fmin)) q qs"

subsection \<open>Parameters and state dictionaries\<close>

text \<open>
  \<open>parameters()\<close> lists the tensors an optimizer updates, in registration order. An
  update in place keeps the shape of every tensor: \<open>assign\<close> writes the values of the
  given tensors over the first parameters and leaves the rest as they are.
\<close>

definition linear_parameters :: "linear \<Rightarrow> tensor list" where
  "linear_parameters l = [weight l, bias l]"

definition overwrite :: "tensor list \<Rightarrow> tensor list \<Rightarrow> tensor list" where
  "overwrite old new = take (length old) new @ drop (length new) old"

definition linear_assign :: "linear \<Rightarrow> tensor list \<Rightarrow> linear" where
  "linear_assign l ps =
     (let qs = overwrite (linear_parameters l) ps
      in l\<lparr>weight := qs ! 0, bias := qs ! 1\<rparr>)"

fun actor_parameters :: "actor \<Rightarrow> tensor list" where
  "actor_parameters (Actor fc1 fc2 fc3 fc_mean fc_logstd a_scale a_bias) =
     linear_parameters fc1 @ linear_parameters fc2 @ linear_parameters fc3 @
     linear_parameters fc_mean @ linear_parameters fc_logstd"

fun actor_assign :: "actor \<Rightarrow> tensor list \<Rightarrow> actor" where
  "actor_assign (Actor fc1 fc2 fc3 fc_mean fc_logstd a_scale a_bias) ps =
     (let qs = overwrite (actor_parameters (Actor fc1 fc2 fc3 fc_mean fc_logstd a_scale a_bias)) ps
      in Actor (linear_assign fc1 (take 2 qs)) (linear_assign fc2 (take 2 (drop 2 qs)))
           (linear_assign fc3 (take 2 (drop 4 qs))) (linear_assign fc_mean (take 2 (drop 6 qs)))
           (linear_assign fc_logstd (take 2 (drop 8 qs))) a_scale a_bias)"

fun critic_parameters :: "critic \<Rightarrow> tensor list" where
  "critic_parameters (Critic fc1 fc2 fc3 fc4) =
     linear_parameters fc1 @ linear_parameters fc2 @ linear_parameters fc3 @ linear_parameters fc4"

fun critic_assign :: "critic \<Rightarrow> tensor list \<Rightarrow> critic" where
  "critic_assign (Critic fc1 fc2 fc3 fc4) ps =
     (let qs = overwrite (critic_parameters (Critic fc1 fc2 fc3 fc4)) ps
      in Critic (linear_assign fc1 (take 2 qs)) (linear_assign fc2 (take 2 (drop 2 qs)))
           (linear_assign fc3 (take 2 (drop 4 qs))) (linear_assign fc4 (take 2 (drop 6 qs))))"

definition ensemble_parameters :: "critic list \<Rightarrow> tensor list" where
  "ensemble_parameters cs = concat (map critic_parameters cs)"

fun ensemble_assign :: "critic list \<Rightarrow> tensor list \<Rightarrow> critic list" where
  "ensemble_assign [] ps = []"
| "ensemble_assign (c # cs) ps = critic_assign c (take 8 ps) # ensemble_assign cs (drop 8 ps)"

text \<open>
  A state dictionary holds each tensor with its shape, in the order of \<open>state_dict()\<close>:
  the buffers of the module, then the weight and bias of each layer. Its keys are fixed
  by the class of the module. \<open>load_state_dict\<close> is strict: it raises unless the entries
  and their shapes are those of the module.
\<close>

type_synonym state_dict = "(nat list \<times> tensor) list"

definition linear_state_dict :: "linear \<Rightarrow> state_dict" where
  "linear_state_dict l = [([length (bias l), in_features l], weight l), ([length (bias l)], bias l)]"

fun actor_state_dict :: "actor \<Rightarrow> state_dict" where
  "actor_state_dict (Actor fc1 fc2 fc3 fc_mean fc_logstd a_scale a_bias) =
     [([length a_scale], a_scale), ([length a_bias], a_bias)] @
     linear_state_dict fc1 @ linear_state_dict fc2 @ linear_state_dict fc3 @
     linear_state_dict fc_mean @ linear_state_dict fc_logstd"

fun actor_load_state_dict :: "actor \<Rightarrow> state_dict \<Rightarrow> error + actor" where
  "actor_load_state_dict (Actor fc1 fc2 fc3 fc_mean fc_logstd a_scale a_bias) sd =
     (if map fst sd = map fst (actor_state_dict (Actor fc1 fc2 fc3 fc_mean fc_logstd a_scale a_bias))
      then Inr (actor_assign (Actor fc1 fc2 fc3 fc_mean fc_logstd (snd (sd ! 0)) (snd (sd ! 1)))
                  (map snd (drop 2 sd)))
      else Inl RuntimeError)"

fun critic_state_dict :: "critic \<Rightarrow> state_dict" where
  "critic_state_dict (Critic fc1 fc2 fc3 fc4) =
     linear_state_dict fc1 @ linear_state_dict fc2 @ linear_state_dict fc3 @ linear_state_dict fc4"

definition ensemble_state_dict :: "critic list \<Rightarrow> state_dict" where
  "ensemble_state_dict cs = concat (map critic_state_dict cs)"

definition ensemble_load_state_dict :: "critic list \<Rightarrow> state_dict \<Rightarrow> error + critic list" where
  "ensemble_load_state_dict cs sd =
     (if map fst sd = map fst (ensemble_state_dict cs)
      then Inr (ensemble_assign cs (map snd sd))
      else Inl RuntimeError)"

section \<open>Observations, logger and collaborators\<close>

text \<open>
  An observation batch is an array (one row per environment) or a dictionary of
  observations. \<open>flatten_obs\<close> joins the three entries of a dictionary row by row.
\<close>

datatype pykey = SKey string | IKey nat

datatype obs = Array "tensor list" | ObsDict "(pykey \<times> obs) list"

definition flatten_obs :: "obs \<Rightarrow> error + tensor list" where
  "flatten_obs ob =
     (case ob of
        Array t \<Rightarrow> Inr t
      | ObsDict d \<Rightarrow>
          (case map_of d (SKey ''observation'') of None \<Rightarrow> Inl KeyError
           | Some observation \<Rightarrow>
          (case map_of d (SKey ''achieved_goal'') of None \<Rightarrow> Inl KeyError
           | Some ag \<Rightarrow>
          (case map_of d (SKey ''desired_goal'') of None \<Rightarrow> Inl KeyError
           | Some dg \<Rightarrow>
          (case (observation, ag, dg) of
             (Array observation, Array ag, Array dg) \<Rightarrow>
               Inr (map (\<lambda>(a, b, c). a @ b @ c) (zip observation (zip ag dg)))
           | _ \<Rightarrow> Inl TypeError)))))"

datatype log_entry = Record string fl | Record_mean string fl

type_synonym logger = "log_entry list"

datatype ent_coef = Auto | Coef fl

datatype buffer_kind = HerReplayBuffer | DictReplayBuffer | ReplayBuffer

type_synonym info = "(string \<times> obs) list"

text \<open>
  The code outside this file: the Adam optimizer with automatic differentiation, the
  curiosity networks of module \<open>mc\<close> with the distributions they return, the environment
  and the replay buffer. \<open>adam_step opt loss ps\<close> is \<open>zero_grad(); loss.backward(); step()\<close>
  for the optimizer state \<open>opt\<close> over the parameters \<open>ps\<close>, where \<open>loss\<close> gives the scalar
  loss as a function of these parameters; it returns the new optimizer state and the new
  value of element \<open>j\<close> of parameter \<open>i\<close>. \<open>fused_add i j\<close> tells whether the kernel of
  \<open>torch.add\<close> with \<open>alpha\<close> fuses its product and its sum into one rounded operation, at
  element \<open>j\<close> of the \<open>i\<close>-th tensor it is called on.
\<close>

record ('w, 'buf, 'opt, 'mc, 'd) lib =
  cuda_is_available :: bool
  Adam :: "tensor list \<Rightarrow> fl \<Rightarrow> 'opt"
  adam_step :: "'opt \<Rightarrow> (tensor list \<Rightarrow> fl) \<Rightarrow> tensor list \<Rightarrow> 'opt \<times> (nat \<Rightarrow> nat \<Rightarrow> fl)"
  MorphologicalNetworks :: "'w env \<Rightarrow> (string \<times> fl) list \<Rightarrow> rng \<Rightarrow> error + 'mc \<times> rng"
  mc_forward :: "'mc \<Rightarrow> tensor list \<Rightarrow> tensor list \<Rightarrow> error + 'd \<times> 'd"
  mc_parameters :: "'mc \<Rightarrow> tensor list"
  mc_assign :: "'mc \<Rightarrow> tensor list \<Rightarrow> 'mc"
  mc_state_dict :: "'mc \<Rightarrow> state_dict"
  mc_load_state_dict :: "'mc \<Rightarrow> state_dict \<Rightarrow> error + 'mc"
  dist_log_prob :: "'d \<Rightarrow> tensor list \<Rightarrow> error + tensor list"
  kl_divergence :: "'d \<Rightarrow> 'd \<Rightarrow> tensor list"
  env_step :: "'w env \<Rightarrow> tensor list \<Rightarrow> 'w env \<times> obs \<times> tensor \<times> bool list \<times> info list"
  action_space_sample :: "'w env \<Rightarrow> tensor \<times> 'w env"
  new_replay_buffer :: "buffer_kind \<Rightarrow> nat \<Rightarrow> 'w env \<Rightarrow> 'buf"
  buffer_add ::
    "'buf \<Rightarrow> obs option \<Rightarrow> obs \<Rightarrow> tensor list \<Rightarrow> tensor \<Rightarrow> bool list \<Rightarrow> info list \<Rightarrow> 'buf"
  fused_add :: "nat \<Rightarrow> nat \<Rightarrow> bool"

definition inplace :: "(nat \<Rightarrow> nat \<Rightarrow> fl) \<Rightarrow> tensor list \<Rightarrow> tensor list" where
  "inplace f ps = map (\<lambda>(i, p). map (f i) [0..<length p]) (enumerate 0 ps)"

definition lookup :: "('k \<times> 'a) list \<Rightarrow> 'k \<Rightarrow> error + 'a" where
  "lookup d k = (case map_of d k of None \<Rightarrow> Inl KeyError | Some v \<Rightarrow> Inr v)"

section \<open>The engine\<close>

text \<open>
  The attributes of a \<open>CLEANSACMC\<close> object (\<open>_last_obs\<close> and \<open>_n_updates\<close> are written
  without their underscore). An attribute that exists only for one kind of entropy
  coefficient is \<open>None\<close> when absent. The entropy coefficient is \<open>"auto"\<close> or a number.
\<close>

record ('w, 'buf, 'opt, 'mc) engine =
  device :: string
  learning_rate :: fl
  buffer_size :: nat
  batch_size :: nat
  learning_starts :: int
  tau :: fl
  gamma :: fl
  n_critics :: nat
  hidden_size :: nat
  mc :: "(string \<times> fl) list"
  env :: "'w env"
  replay_buffer :: 'buf
  actor :: actor
  actor_optimizer :: 'opt
  critic :: "critic list"
  critic_target :: "critic list"
  critic_optimizer :: 'opt
  mc_network :: 'mc
  mc_optimizer :: 'opt
  ent_coef :: ent_coef
  target_entropy :: "fl option"
  log_ent_coef :: "fl option"
  ent_coef_optimizer :: "'opt option"
  ent_coef_tensor :: "fl option"
  logger :: "logger option"
  last_obs :: "obs option"
  num_timesteps :: int
  n_updates :: int

text \<open>The keyword arguments of the constructor, with their defaults.\<close>

record kwargs =
  kw_learning_rate :: fl
  kw_buffer_size :: nat
  kw_learning_starts :: int
  kw_batch_size :: nat
  kw_tau :: fl
  kw_gamma :: fl
  kw_ent_coef :: ent_coef
  kw_use_her :: bool
  kw_n_critics :: nat
  kw_hidden_size :: nat
  kw_mc :: "(string \<times> fl) list"

definition default_kwargs :: kwargs where
  "default_kwargs =
     \<lparr>kw_learning_rate = Fin (3 / 10 ^ 4), kw_buffer_size = 1000000, kw_learning_starts = 100,
      kw_batch_size = 256, kw_tau = Fin (5 / 10 ^ 3), kw_gamma = Fin (99 / 100),
      kw_ent_coef = Auto, kw_use_her = True, kw_n_critics = 2, kw_hidden_size = 256,
      kw_mc = []\<rparr>"

definition create_actor_critic ::
  "('w, 'buf, 'opt, 'mc, 'd) lib \<Rightarrow> 'w env \<Rightarrow> fl \<Rightarrow> nat \<Rightarrow> nat \<Rightarrow> (string \<times> fl) list \<Rightarrow> rng \<Rightarrow>
   error + actor \<times> 'opt \<times> critic list \<times> critic list \<times> 'opt \<times> 'mc \<times> 'opt" where
  "create_actor_critic L e lr n h cfg g =
     (let (actor, g1) = Actor_init e h g;
          actor_optimizer = Adam L (actor_parameters actor) lr;
          (critic, g2) = CriticEnsemble_init e n h g1;
          (critic_target, g3) = CriticEnsemble_init e n h g2
      in bind (ensemble_load_state_dict critic_target (ensemble_state_dict critic)) (\<lambda>critic_target.
         let critic_optimizer = Adam L (ensemble_parameters critic) lr
         in bind (MorphologicalNetworks L e cfg g3) (\<lambda>(mc_network, g4).
            bind (lookup cfg ''learning_rate'') (\<lambda>mc_lr.
            Inr (actor, actor_optimizer, critic, critic_target, critic_optimizer, mc_network,
                 Adam L (mc_parameters L mc_network) mc_lr)))))"

definition CLEANSACMC_init ::
  "('w, 'buf, 'opt, 'mc, 'd) lib \<Rightarrow> 'w env \<Rightarrow> kwargs \<Rightarrow> rng \<Rightarrow> error + ('w, 'buf, 'opt, 'mc) engine" where
  "CLEANSACMC_init L e kw g =
     (if \<not> list_all is_finite (action_low e @ action_high e) then Inl AssertionError
      else
        let buffer =
              new_replay_buffer L
                (if kw_use_her kw then HerReplayBuffer
                 else (case observation_space e of Dict _ \<Rightarrow> DictReplayBuffer | Box _ \<Rightarrow> ReplayBuffer))
                (kw_buffer_size kw) e
        in bind (create_actor_critic L e (kw_learning_rate kw) (kw_n_critics kw) (kw_hidden_size kw)
                   (kw_mc kw) g)
             (\<lambda>(a, a_opt, c, c_target, c_opt, m, m_opt).
                Inr \<lparr>device = (if cuda_is_available L then ''cuda'' else ''cpu''),
                     learning_rate = kw_learning_rate kw,
                     buffer_size = kw_buffer_size kw,
                     batch_size = kw_batch_size kw,
                     learning_starts = kw_learning_starts kw,
                     tau = kw_tau kw,
                     gamma = kw_gamma kw,
                     n_critics = kw_n_critics kw,
                     hidden_size = kw_hidden_size kw,
                     mc = kw_mc kw,
                     env = e,
                     replay_buffer = buffer,
                     actor = a,
                     actor_optimizer = a_opt,
                     critic = c,
                     critic_target = c_target,
                     critic_optimizer = c_opt,
                     mc_network = m,
                     mc_optimizer = m_opt,
                     ent_coef = kw_ent_coef kw,
                     target_entropy =
                       (case kw_ent_coef kw of
                          Auto \<Rightarrow> Some (Fin (- real (prod_list (action_shape e)))) | Coef _ \<Rightarrow> None),
                     log_ent_coef = (case kw_ent_coef kw of Auto \<Rightarrow> Some (Fin 0) | Coef _ \<Rightarrow> None),
                     ent_coef_optimizer =
                       (case kw_ent_coef kw of
                          Auto \<Rightarrow> Some (Adam L [[Fin 0]] (kw_learning_rate kw)) | Coef _ \<Rightarrow> None),
                     ent_coef_tensor = (case kw_ent_coef kw of Auto \<Rightarrow> None | Coef c \<Rightarrow> Some c),
                     logger = None,
                     last_obs = None,
                     num_timesteps = 0,
                     n_updates = 0\<rparr>))"

definition set_logger ::
  "('w, 'buf, 'opt, 'mc) engine \<Rightarrow> logger \<Rightarrow> ('w, 'buf, 'opt, 'mc) engine" where
  "set_logger s lg = s\<lparr>logger := Some lg\<rparr>"

text \<open>\<open>self.logger.record\<close> and \<open>self.logger.record_mean\<close>; the logger is \<open>None\<close> until set.\<close>

definition log_record ::
  "string \<Rightarrow> fl \<Rightarrow> ('w, 'buf, 'opt, 'mc) engine \<Rightarrow> error + ('w, 'buf, 'opt, 'mc) engine" where
  "log_record k v s =
     (case logger s of None \<Rightarrow> Inl AttributeError
      | Some es \<Rightarrow> Inr (s\<lparr>logger := Some (es @ [Record k v])\<rparr>))"

definition log_record_mean ::
  "string \<Rightarrow> fl \<Rightarrow> ('w, 'buf, 'opt, 'mc) engine \<Rightarrow> error + ('w, 'buf, 'opt, 'mc) engine" where
  "log_record_mean k v s =
     (case logger s of None \<Rightarrow> Inl AttributeError
      | Some es \<Rightarrow> Inr (s\<lparr>logger := Some (es @ [Record_mean k v])\<rparr>))"

section \<open>Reward composition\<close>

text \<open>
  \<open>calc_reward\<close>: the divergence of the two predictors, averaged over the features of
  each sample, times \<open>reward_eta\<close>, added to the extrinsic rewards. Tensors of shape
  \<open>[B, 1]\<close> are lists of one-element rows; the sum is taken element by element
  (broadcasting between different shapes is not modelled).
\<close>

definition calc_reward ::
  "('w, 'buf, 'opt, 'mc, 'd) lib \<Rightarrow> ('w, 'buf, 'opt, 'mc) engine \<Rightarrow> tensor list \<Rightarrow> tensor list \<Rightarrow>
   tensor list \<Rightarrow> bool \<Rightarrow> error + tensor list \<times> ('w, 'buf, 'opt, 'mc) engine" where
  "calc_reward L s obsv acts e_rewards is_executing =
     bind (mc_forward L (mc_network s) obsv acts) (\<lambda>(forward_normal, world_normal).
       let err = map (\<lambda>row. [fmean row]) (kl_divergence L forward_normal world_normal)
       in bind (lookup (mc s) ''reward_eta'') (\<lambda>eta.
            let i_rewards = map (map (\<lambda>e. fmul e eta)) err;
                rewards = map2 (map2 fadd) e_rewards i_rewards;
                put = (if is_executing then log_record else log_record_mean)
            in bind (put ''mc/i_reward'' (fmean (concat i_rewards)) s) (\<lambda>s.
               bind (put ''mc/e_reward'' (fmean (concat e_rewards)) s) (\<lambda>s.
               bind (put ''mc/kld'' (fmean (concat err)) s) (\<lambda>s.
               bind (put ''mc/reward'' (fmean (concat rewards)) s) (\<lambda>s.
               Inr (rewards, s)))))))"

section \<open>The training step\<close>

record replay_data =
  observations :: obs
  actions :: "tensor list"
  next_observations :: obs
  dones :: "tensor list"
  rewards :: "tensor list"

definition mc_losses ::
  "('w, 'buf, 'opt, 'mc, 'd) lib \<Rightarrow> 'mc \<Rightarrow> tensor list \<Rightarrow> tensor list \<Rightarrow> tensor list \<Rightarrow>
   error + tensor list \<times> tensor list \<times> fl" where
  "mc_losses L m obsv next_obsv acts =
     bind (mc_forward L m obsv acts) (\<lambda>(forward_normal, world_normal).
     bind (dist_log_prob L forward_normal next_obsv) (\<lambda>lf.
     bind (dist_log_prob L world_normal next_obsv) (\<lambda>lw.
       let fw_loss = map (map fneg) lf;
           w_prime_a_loss = map (map fneg) lw;
           loss = fmean (concat (map2 (map2 fadd) fw_loss w_prime_a_loss))
       in Inr (fw_loss, w_prime_a_loss, loss))))"

text \<open>
  \<open>mc_optimizer.zero_grad(); loss.backward(); mc_optimizer.step()\<close>: the loss as a function
  of the parameters of the curiosity networks, handed to Adam.
\<close>

definition mc_step ::
  "('w, 'buf, 'opt, 'mc, 'd) lib \<Rightarrow> ('w, 'buf, 'opt, 'mc) engine \<Rightarrow> tensor list \<Rightarrow> tensor list \<Rightarrow>
   tensor list \<Rightarrow> 'opt \<times> (nat \<Rightarrow> nat \<Rightarrow> fl)" where
  "mc_step L s obsv next_obsv acts =
     adam_step L (mc_optimizer s)
       (\<lambda>qs. case mc_losses L (mc_assign L (mc_network s) qs) obsv next_obsv acts of
                Inr (_, _, l) \<Rightarrow> l | Inl _ \<Rightarrow> NaN)
       (mc_parameters L (mc_network s))"

definition train_mc ::
  "('w, 'buf, 'opt, 'mc, 'd) lib \<Rightarrow> ('w, 'buf, 'opt, 'mc) engine \<Rightarrow> tensor list \<Rightarrow> tensor list \<Rightarrow>
   tensor list \<Rightarrow> error + ('w, 'buf, 'opt, 'mc) engine" where
  "train_mc L s obsv next_obsv acts =
     bind (mc_losses L (mc_network s) obsv next_obsv acts) (\<lambda>(fw_loss, w_prime_a_loss, loss).
     bind (log_record ''mc/fw_loss'' (fmean (concat fw_loss)) s) (\<lambda>s.
     bind (log_record ''mc/w_prime_a_loss'' (fmean (concat w_prime_a_loss)) s) (\<lambda>s.
     bind (log_record ''mc/loss'' loss s) (\<lambda>s.
       let (opt, f) = mc_step L s obsv next_obsv acts
       in Inr (s\<lparr>mc_network := mc_assign L (mc_network s) (inplace f (mc_parameters L (mc_network s))),
                 mc_optimizer := opt\<rparr>)))))"

text \<open>
  The entropy coefficient of the step: learned (one Adam step on \<open>log_ent_coef\<close>, then its
  exponential) or the fixed tensor.
\<close>

definition ent_coef_loss :: "fl \<Rightarrow> tensor list \<Rightarrow> fl \<Rightarrow> fl" where
  "ent_coef_loss lec log_pi t_entropy =
     fmean (concat (map (map (\<lambda>l. fmul (fneg lec) (fadd l t_entropy))) log_pi))"

definition ent_coef_step ::
  "('w, 'buf, 'opt, 'mc, 'd) lib \<Rightarrow> 'opt \<Rightarrow> fl \<Rightarrow> tensor list \<Rightarrow> fl \<Rightarrow> 'opt \<times> (nat \<Rightarrow> nat \<Rightarrow> fl)" where
  "ent_coef_step L opt lec log_pi t_entropy =
     adam_step L opt (\<lambda>qs. ent_coef_loss (qs ! 0 ! 0) log_pi t_entropy) [[lec]]"

definition update_ent_coef ::
  "('w, 'buf, 'opt, 'mc, 'd) lib \<Rightarrow> ('w, 'buf, 'opt, 'mc) engine \<Rightarrow> tensor list \<Rightarrow>
   (nat \<Rightarrow> nat \<Rightarrow> real) \<Rightarrow> error + fl \<times> ('w, 'buf, 'opt, 'mc) engine" where
  "update_ent_coef L s obsv eps =
     (case ent_coef s of
        Auto \<Rightarrow>
          bind (get_action (actor s) obsv eps) (\<lambda>(_, log_pi).
          (case (log_ent_coef s, target_entropy s, ent_coef_optimizer s) of
             (Some lec, Some t_entropy, Some opt) \<Rightarrow>
               bind (log_record ''train/ent_coef_loss'' (ent_coef_loss lec log_pi t_entropy) s) (\<lambda>s.
                 let (opt, f) = ent_coef_step L opt lec log_pi t_entropy;
                     lec = f 0 0
                 in Inr (fexp lec, s\<lparr>log_ent_coef := Some lec, ent_coef_optimizer := Some opt\<rparr>))
           | _ \<Rightarrow> Inl AttributeError))
      | Coef _ \<Rightarrow>
          (case ent_coef_tensor s of None \<Rightarrow> Inl AttributeError | Some c \<Rightarrow> Inr (c, s)))"

text \<open>
  The block under \<open>torch.no_grad()\<close>: the bootstrapped target \<open>next_q_value\<close> of the
  critics, with the composed reward.
\<close>

definition next_q_value ::
  "('w, 'buf, 'opt, 'mc, 'd) lib \<Rightarrow> ('w, 'buf, 'opt, 'mc) engine \<Rightarrow> replay_data \<Rightarrow> tensor list \<Rightarrow>
   tensor list \<Rightarrow> fl \<Rightarrow> (nat \<Rightarrow> nat \<Rightarrow> real) \<Rightarrow> error + tensor \<times> ('w, 'buf, 'opt, 'mc) engine" where
  "next_q_value L s rd obsv next_obsv coef eps =
     bind (get_action (actor s) next_obsv eps) (\<lambda>(next_state_actions, next_state_log_pi).
     bind (ensemble_forward (critic_target s) next_obsv next_state_actions) (\<lambda>crit_next_targets.
       let min_crit_next_target = min_dim0 crit_next_targets;
           min_crit_next_target =
             map2 (map2 fsub) min_crit_next_target (map (map (fmul coef)) next_state_log_pi)
       in bind (calc_reward L s obsv next_state_actions (rewards rd) False) (\<lambda>(rewards, s).
            Inr (map (\<lambda>(r, d, m). fadd r (fmul (fmul (fsub (Fin 1) d) (gamma s)) m))
                     (zip (concat rewards) (zip (concat (dones rd)) (concat min_crit_next_target))),
                 s))))"

definition mse_loss :: "tensor list \<Rightarrow> tensor \<Rightarrow> fl" where
  "mse_loss a_v target = fmean (map2 (\<lambda>a t. fmul (fsub a t) (fsub a t)) (concat a_v) target)"

definition crit_loss :: "critic list \<Rightarrow> tensor list \<Rightarrow> tensor list \<Rightarrow> tensor \<Rightarrow> error + fl" where
  "crit_loss cs obsv acts target =
     bind (ensemble_forward cs obsv acts) (\<lambda>critic_a_values.
       Inr (fsum (map (\<lambda>a_v. mse_loss a_v target) critic_a_values)))"

definition critic_step ::
  "('w, 'buf, 'opt, 'mc, 'd) lib \<Rightarrow> ('w, 'buf, 'opt, 'mc) engine \<Rightarrow> replay_data \<Rightarrow> tensor list \<Rightarrow>
   tensor \<Rightarrow> 'opt \<times> (nat \<Rightarrow> nat \<Rightarrow> fl)" where
  "critic_step L s rd obsv target =
     adam_step L (critic_optimizer s)
       (\<lambda>qs. case crit_loss (ensemble_assign (critic s) qs) obsv (actions rd) target of
                Inr l \<Rightarrow> l | Inl _ \<Rightarrow> NaN)
       (ensemble_parameters (critic s))"

definition update_critic ::
  "('w, 'buf, 'opt, 'mc, 'd) lib \<Rightarrow> ('w, 'buf, 'opt, 'mc) engine \<Rightarrow> replay_data \<Rightarrow> tensor list \<Rightarrow>
   tensor \<Rightarrow> error + ('w, 'buf, 'opt, 'mc) engine" where
  "update_critic L s rd obsv target =
     bind (crit_loss (critic s) obsv (actions rd) target) (\<lambda>loss.
     bind (log_record ''train/critic_loss'' loss s) (\<lambda>s.
     bind (log_record ''train/train_rewards'' (fmean (concat (rewards rd))) s) (\<lambda>s.
       let (opt, f) = critic_step L s rd obsv target
       in Inr (s\<lparr>critic := ensemble_assign (critic s) (inplace f (ensemble_parameters (critic s))),
                 critic_optimizer := opt\<rparr>))))"

definition actor_loss :: "actor \<Rightarrow> critic list \<Rightarrow> tensor list \<Rightarrow> fl \<Rightarrow> (nat \<Rightarrow> nat \<Rightarrow> real) \<Rightarrow> error + fl" where
  "actor_loss a cs obsv coef eps =
     bind (get_action a obsv eps) (\<lambda>(pi, log_pi).
     bind (ensemble_forward cs obsv pi) (\<lambda>qs.
       let min_crit_pi = min_dim0 qs
       in Inr (fmean (concat (map2 (map2 fsub) (map (map (fmul coef)) log_pi) min_crit_pi)))))"

definition actor_step ::
  "('w, 'buf, 'opt, 'mc, 'd) lib \<Rightarrow> ('w, 'buf, 'opt, 'mc) engine \<Rightarrow> tensor list \<Rightarrow> fl \<Rightarrow>
   (nat \<Rightarrow> nat \<Rightarrow> real) \<Rightarrow> 'opt \<times> (nat \<Rightarrow> nat \<Rightarrow> fl)" where
  "actor_step L s obsv coef eps =
     adam_step L (actor_optimizer s)
       (\<lambda>qs. case actor_loss (actor_assign (actor s) qs) (critic s) obsv coef eps of
                Inr l \<Rightarrow> l | Inl _ \<Rightarrow> NaN)
       (actor_parameters (actor s))"

definition update_actor ::
  "('w, 'buf, 'opt, 'mc, 'd) lib \<Rightarrow> ('w, 'buf, 'opt, 'mc) engine \<Rightarrow> tensor list \<Rightarrow> fl \<Rightarrow>
   (nat \<Rightarrow> nat \<Rightarrow> real) \<Rightarrow> error + ('w, 'buf, 'opt, 'mc) engine" where
  "update_actor L s obsv coef eps =
     bind (actor_loss (actor s) (critic s) obsv coef eps) (\<lambda>loss.
     bind (log_record ''train/actor_loss'' loss s) (\<lambda>s.
       let (opt, f) = actor_step L s obsv coef eps
       in Inr (s\<lparr>actor := actor_assign (actor s) (inplace f (actor_parameters (actor s))),
                 actor_optimizer := opt\<rparr>)))"

text \<open>
  The Polyak update: \<open>target_param.data.mul_(1 - tau)\<close>, then
  \<open>torch.add(target_param.data, param.data, alpha=tau, out=target_param.data)\<close>, over the
  zipped parameters of the critics and of the target critics. \<open>tau\<close> is a Python float:
  \<open>1 - tau\<close> is rounded as one, and both scalars are taken as float32 by the tensor
  operations. \<open>torch.add\<close> gives \<open>input + alpha * other\<close>, rounding the product and then the
  sum, or the two at once where its kernel fuses them.
\<close>

definition add_alpha :: "bool \<Rightarrow> fl \<Rightarrow> fl \<Rightarrow> fl \<Rightarrow> fl" where
  "add_alpha fused a b alpha =
     (if fused then rnd32 (fadd a (fmul alpha b)) else add32 a (mul32 alpha b))"

definition polyak :: "(nat \<Rightarrow> bool) \<Rightarrow> fl \<Rightarrow> tensor \<Rightarrow> tensor \<Rightarrow> tensor" where
  "polyak fused t param target_param =
     map (\<lambda>(j, p, q). add_alpha (fused j) (mul32 q (rnd32 (rnd64 (fsub (Fin 1) t)))) p (rnd32 t))
         (enumerate 0 (zip param target_param))"

definition polyak_update ::
  "('w, 'buf, 'opt, 'mc, 'd) lib \<Rightarrow> ('w, 'buf, 'opt, 'mc) engine \<Rightarrow> ('w, 'buf, 'opt, 'mc) engine" where
  "polyak_update L s =
     s\<lparr>critic_target :=
         ensemble_assign (critic_target s)
           (map (\<lambda>(i, p, q). polyak (fused_add L i) (tau s) p q)
              (enumerate 0 (zip (ensemble_parameters (critic s))
                 (ensemble_parameters (critic_target s)))))\<rparr>"

text \<open>
  \<open>train\<close>, for the batch \<open>rd\<close> sampled from the replay buffer and the noise of its three
  calls of \<open>get_action\<close>.
\<close>

definition train ::
  "('w, 'buf, 'opt, 'mc, 'd) lib \<Rightarrow> ('w, 'buf, 'opt, 'mc) engine \<Rightarrow> replay_data \<Rightarrow>
   (nat \<Rightarrow> nat \<Rightarrow> real) \<Rightarrow> (nat \<Rightarrow> nat \<Rightarrow> real) \<Rightarrow> (nat \<Rightarrow> nat \<Rightarrow> real) \<Rightarrow>
   error + ('w, 'buf, 'opt, 'mc) engine" where
  "train L s rd eps1 eps2 eps3 =
     (let s = s\<lparr>n_updates := n_updates s + 1\<rparr>
      in bind (log_record ''train/n_updates'' (Fin (real_of_int (n_updates s))) s) (\<lambda>s.
         bind (flatten_obs (observations rd)) (\<lambda>obsv.
         bind (flatten_obs (next_observations rd)) (\<lambda>next_obsv.
         bind (train_mc L s obsv next_obsv (actions rd)) (\<lambda>s.
         bind (update_ent_coef L s obsv eps1) (\<lambda>(coef, s).
         bind (log_record ''train/ent_coef'' coef s) (\<lambda>s.
         bind (next_q_value L s rd obsv next_obsv coef eps2) (\<lambda>(target, s).
         bind (update_critic L s rd obsv target) (\<lambda>s.
         bind (update_actor L s obsv coef eps3) (\<lambda>s.
         Inr (polyak_update L s)))))))))))"

section \<open>Rollouts\<close>

definition predict ::
  "('w, 'buf, 'opt, 'mc) engine \<Rightarrow> obs \<Rightarrow> (nat \<Rightarrow> nat \<Rightarrow> real) \<Rightarrow> error + tensor list \<times> tensor list" where
  "predict s ob eps =
     bind (flatten_obs ob) (\<lambda>observation. get_action (actor s) observation eps)"

text \<open>
  The choice of the action in \<open>collect_rollout\<close>: sampled from the action space during
  warm-up, from the policy afterwards. It returns the actions, their log-probabilities
  and the environment, whose sampler has advanced in the first case.
\<close>

definition select_action ::
  "('w, 'buf, 'opt, 'mc, 'd) lib \<Rightarrow> ('w, 'buf, 'opt, 'mc) engine \<Rightarrow> (nat \<Rightarrow> nat \<Rightarrow> real) \<Rightarrow>
   error + tensor list \<times> tensor list \<times> 'w env" where
  "select_action L s eps =
     (if num_timesteps s < learning_starts s
      then (let (a, e) = action_space_sample L (env s) in Inr ([a], [[Fin 0]], e))
      else (case last_obs s of
              None \<Rightarrow> Inl AttributeError
            | Some ob \<Rightarrow> bind (predict s ob eps) (\<lambda>(acts, log_prob). Inr (acts, log_prob, env s))))"

text \<open>\<open>real_next_obs[idx] = infos[idx]["terminal_observation"]\<close>\<close>

definition dict_set :: "('k \<times> 'a) list \<Rightarrow> 'k \<Rightarrow> 'a \<Rightarrow> ('k \<times> 'a) list" where
  "dict_set d k v =
     (if k \<in> fst ` set d then map (\<lambda>(k', v'). if k' = k then (k', v) else (k', v')) d
      else d @ [(k, v)])"

definition set_item :: "obs \<Rightarrow> nat \<Rightarrow> obs \<Rightarrow> error + obs" where
  "set_item ob idx v =
     (case ob of
        ObsDict d \<Rightarrow> Inr (ObsDict (dict_set d (IKey idx) v))
      | Array rows \<Rightarrow>
          (case v of
             Array [r] \<Rightarrow> (if idx < length rows then Inr (Array (rows[idx := r])) else Inl IndexError)
           | _ \<Rightarrow> Inl ValueError))"

fun terminal_observations :: "obs \<Rightarrow> (nat \<times> bool) list \<Rightarrow> info list \<Rightarrow> error + obs" where
  "terminal_observations real_next_obs [] infos = Inr real_next_obs"
| "terminal_observations real_next_obs ((idx, done) # ds) infos =
     (if done
      then (if idx < length infos
            then bind (lookup (infos ! idx) ''terminal_observation'') (\<lambda>v.
                 bind (set_item real_next_obs idx v) (\<lambda>real_next_obs.
                 terminal_observations real_next_obs ds infos))
            else Inl IndexError)
      else terminal_observations real_next_obs ds infos)"

text \<open>
  \<open>collect_rollout\<close>, for the answer \<open>on_step\<close> of the callback (\<open>None\<close> when it returns
  nothing).
\<close>

definition collect_rollout ::
  "('w, 'buf, 'opt, 'mc, 'd) lib \<Rightarrow> ('w, 'buf, 'opt, 'mc) engine \<Rightarrow> (nat \<Rightarrow> nat \<Rightarrow> real) \<Rightarrow>
   bool option \<Rightarrow> error + bool \<times> ('w, 'buf, 'opt, 'mc) engine" where
  "collect_rollout L s eps on_step =
     bind (select_action L s eps) (\<lambda>(acts, log_prob, e).
       let (e, new_obs, rews, dns, infos) = env_step L e acts;
           s = s\<lparr>env := e\<rparr>
       in bind (flatten_obs new_obs) (\<lambda>flat.
          bind (calc_reward L s flat acts [rews] True) (\<lambda>(_, s).
          bind (log_record ''actor_entropy'' (fneg (fmean (concat log_prob))) s) (\<lambda>s.
          bind (log_record ''train/rollout_rewards_step'' (fmean rews) s) (\<lambda>s.
          bind (log_record_mean ''train/rollout_rewards_mean'' (fmean rews) s) (\<lambda>s.
            let s = s\<lparr>num_timesteps := num_timesteps s + int (num_envs (env s))\<rparr>
            in bind (terminal_observations new_obs (enumerate 0 dns) infos) (\<lambda>real_next_obs.
                 let s = s\<lparr>replay_buffer :=
                              buffer_add L (replay_buffer s) (last_obs s) real_next_obs acts rews dns infos\<rparr>;
                     s = s\<lparr>last_obs := Some new_obs\<rparr>
                 in Inr (on_step \<noteq> Some False, s))))))))"

section \<open>Saving and loading\<close>

text \<open>
  The values of the attributes of an engine and of the entries of a checkpoint.
  \<open>attributes s\<close> is \<open>self.__dict__\<close>, in the order the constructor sets the attributes.
\<close>

datatype ('w, 'buf, 'opt, 'mc) pyval =
  PNone | PStr string | PFloat fl | PNat nat | PInt int | PConfig "(string \<times> fl) list"
| PEnv "'w env" | PBuffer 'buf | PActor actor | PCritics "critic list" | POptimizer 'opt
| PMc 'mc | PEntCoef ent_coef | PLogger logger | PObs obs | PStateDict state_dict

definition attributes ::
  "('w, 'buf, 'opt, 'mc) engine \<Rightarrow> (string \<times> ('w, 'buf, 'opt, 'mc) pyval) list" where
  "attributes s =
     [(''device'', PStr (device s)),
      (''learning_rate'', PFloat (learning_rate s)),
      (''buffer_size'', PNat (buffer_size s)),
      (''batch_size'', PNat (batch_size s)),
      (''learning_starts'', PInt (learning_starts s)),
      (''tau'', PFloat (tau s)),
      (''gamma'', PFloat (gamma s)),
      (''n_critics'', PNat (n_critics s)),
      (''hidden_size'', PNat (hidden_size s)),
      (''mc'', PConfig (mc s)),
      (''env'', PEnv (env s)),
      (''replay_buffer'', PBuffer (replay_buffer s)),
      (''actor'', PActor (actor s)),
      (''actor_optimizer'', POptimizer (actor_optimizer s)),
      (''critic'', PCritics (critic s)),
      (''critic_target'', PCritics (critic_target s)),
      (''critic_optimizer'', POptimizer (critic_optimizer s)),
      (''mc_network'', PMc (mc_network s)),
      (''mc_optimizer'', POptimizer (mc_optimizer s)),
      (''ent_coef'', PEntCoef (ent_coef s))] @
     (case target_entropy s of None \<Rightarrow> [] | Some v \<Rightarrow> [(''target_entropy'', PFloat v)]) @
     (case log_ent_coef s of None \<Rightarrow> [] | Some v \<Rightarrow> [(''log_ent_coef'', PFloat v)]) @
     (case ent_coef_optimizer s of None \<Rightarrow> [] | Some v \<Rightarrow> [(''ent_coef_optimizer'', POptimizer v)]) @
     (case ent_coef_tensor s of None \<Rightarrow> [] | Some v \<Rightarrow> [(''ent_coef_tensor'', PFloat v)]) @
     [(''logger'', (case logger s of None \<Rightarrow> PNone | Some lg \<Rightarrow> PLogger lg)),
      (''_last_obs'', (case last_obs s of None \<Rightarrow> PNone | Some ob \<Rightarrow> PObs ob)),
      (''num_timesteps'', PInt (num_timesteps s)),
      (''_n_updates'', PInt (n_updates s))]"

text \<open>
  \<open>model.__dict__[k] = v\<close>. Only the attributes of the class, with values of their own
  kind, are kept by the model of the engine.
\<close>

definition setattr ::
  "('w, 'buf, 'opt, 'mc) engine \<Rightarrow> string \<Rightarrow> ('w, 'buf, 'opt, 'mc) pyval \<Rightarrow> ('w, 'buf, 'opt, 'mc) engine" where
  "setattr m k v =
     (case v of
        PStr x \<Rightarrow> (if k = ''device'' then m\<lparr>device := x\<rparr> else m)
      | PFloat x \<Rightarrow>
          (if k = ''learning_rate'' then m\<lparr>learning_rate := x\<rparr>
           else if k = ''tau'' then m\<lparr>tau := x\<rparr>
           else if k = ''gamma'' then m\<lparr>gamma := x\<rparr>
           else if k = ''target_entropy'' then m\<lparr>target_entropy := Some x\<rparr>
           else if k = ''log_ent_coef'' then m\<lparr>log_ent_coef := Some x\<rparr>
           else if k = ''ent_coef_tensor'' then m\<lparr>ent_coef_tensor := Some x\<rparr>
           else m)
      | PNat x \<Rightarrow>
          (if k = ''buffer_size'' then m\<lparr>buffer_size := x\<rparr>
           else if k = ''batch_size'' then m\<lparr>batch_size := x\<rparr>
           else if k = ''n_critics'' then m\<lparr>n_critics := x\<rparr>
           else if k = ''hidden_size'' then m\<lparr>hidden_size := x\<rparr>
           else m)
      | PInt x \<Rightarrow>
          (if k = ''learning_starts'' then m\<lparr>learning_starts := x\<rparr>
           else if k = ''num_timesteps'' then m\<lparr>num_timesteps := x\<rparr>
           else if k = ''_n_updates'' then m\<lparr>n_updates := x\<rparr>
           else m)
      | PConfig x \<Rightarrow> (if k = ''mc'' then m\<lparr>mc := x\<rparr> else m)
      | PEnv x \<Rightarrow> (if k = ''env'' then m\<lparr>env := x\<rparr> else m)
      | PBuffer x \<Rightarrow> (if k = ''replay_buffer'' then m\<lparr>replay_buffer := x\<rparr> else m)
      | PActor x \<Rightarrow> (if k = ''actor'' then m\<lparr>actor := x\<rparr> else m)
      | PCritics x \<Rightarrow>
          (if k = ''critic'' then m\<lparr>critic := x\<rparr>
           else if k = ''critic_target'' then m\<lparr>critic_target := x\<rparr>
           else m)
      | POptimizer x \<Rightarrow>
          (if k = ''actor_optimizer'' then m\<lparr>actor_optimizer := x\<rparr>
           else if k = ''critic_optimizer'' then m\<lparr>critic_optimizer := x\<rparr>
           else if k = ''mc_optimizer'' then m\<lparr>mc_optimizer := x\<rparr>
           else if k = ''ent_coef_optimizer'' then m\<lparr>ent_coef_optimizer := Some x\<rparr>
           else m)
      | PMc x \<Rightarrow> (if k = ''mc_network'' then m\<lparr>mc_network := x\<rparr> else m)
      | PEntCoef x \<Rightarrow> (if k = ''ent_coef'' then m\<lparr>ent_coef := x\<rparr> else m)
      | PLogger x \<Rightarrow> (if k = ''logger'' then m\<lparr>logger := Some x\<rparr> else m)
      | PObs x \<Rightarrow> (if k = ''_last_obs'' then m\<lparr>last_obs := Some x\<rparr> else m)
      | PNone \<Rightarrow>
          (if k = ''logger'' then m\<lparr>logger := None\<rparr>
           else if k = ''_last_obs'' then m\<lparr>last_obs := None\<rparr>
           else m)
      | PStateDict x \<Rightarrow> m)"

text \<open>\<open>del data[k]\<close> raises \<open>KeyError\<close> when the key is absent.\<close>

definition del_key :: "(string \<times> 'a) list \<Rightarrow> string \<Rightarrow> error + (string \<times> 'a) list" where
  "del_key d k = (if k \<in> fst ` set d then Inr (filter (\<lambda>(k', _). k' \<noteq> k) d) else Inl KeyError)"

fun del_keys :: "(string \<times> 'a) list \<Rightarrow> string list \<Rightarrow> error + (string \<times> 'a) list" where
  "del_keys d [] = Inr d"
| "del_keys d (k # ks) = bind (del_key d k) (\<lambda>d. del_keys d ks)"

text \<open>\<open>save\<close> returns the dictionary that \<open>torch.save\<close> writes to the path.\<close>

definition save ::
  "('w, 'buf, 'opt, 'mc, 'd) lib \<Rightarrow> ('w, 'buf, 'opt, 'mc) engine \<Rightarrow>
   error + (string \<times> ('w, 'buf, 'opt, 'mc) pyval) list" where
  "save L s =
     bind (del_keys (attributes s)
             [''logger'', ''env'', ''num_timesteps'', ''_n_updates'', ''_last_obs'', ''replay_buffer'',
              ''actor'', ''critic'', ''critic_target''])
       (\<lambda>data.
          let data = dict_set data ''_actor'' (PStateDict (actor_state_dict (actor s)));
              data = dict_set data ''_critic'' (PStateDict (ensemble_state_dict (critic s)));
              data = dict_set data ''_mc'' (PStateDict (mc_state_dict L (mc_network s)))
          in Inr data)"

definition get_state_dict ::
  "(string \<times> ('w, 'buf, 'opt, 'mc) pyval) list \<Rightarrow> string \<Rightarrow> error + state_dict" where
  "get_state_dict d k =
     bind (lookup d k) (\<lambda>v. case v of PStateDict sd \<Rightarrow> Inr sd | _ \<Rightarrow> Inl TypeError)"

text \<open>
  \<open>load\<close>, for the dictionary \<open>loaded_dict\<close> that \<open>torch.load\<close> reads from the path, the
  environment, the keyword arguments passed on to the constructor and the random
  generator that initialises the new networks.
\<close>

definition load ::
  "('w, 'buf, 'opt, 'mc, 'd) lib \<Rightarrow> (string \<times> ('w, 'buf, 'opt, 'mc) pyval) list \<Rightarrow> 'w env \<Rightarrow> kwargs \<Rightarrow>
   rng \<Rightarrow> error + ('w, 'buf, 'opt, 'mc) engine" where
  "load L loaded_dict e kw g =
     bind (CLEANSACMC_init L e kw g) (\<lambda>model.
       let model = foldl (\<lambda>m (k, v). if k \<notin> set [''_actor'', ''_critic'', ''_mc''] then setattr m k v else m)
                     model loaded_dict
       in bind (get_state_dict loaded_dict ''_actor'') (\<lambda>sd.
          bind (actor_load_state_dict (actor model) sd) (\<lambda>a.
            let model = model\<lparr>actor := a\<rparr>
            in bind (get_state_dict loaded_dict ''_critic'') (\<lambda>sd.
               bind (ensemble_load_state_dict (critic model) sd) (\<lambda>c.
                 let model = model\<lparr>critic := c\<rparr>
                 in bind (get_state_dict loaded_dict ''_mc'') (\<lambda>sd.
                    bind (mc_load_state_dict L (mc_network model) sd) (\<lambda>m.
                      Inr (model\<lparr>mc_network := m\<rparr>))))))))"

section \<open>A small instance\<close>

text \<open>
  An environment with one observation feature and one action in \<open>[-1, 1]\<close>, and
  collaborators small enough to run by hand: the curiosity network has one parameter,
  its two predictors are unit-variance Gaussians around the observation and around zero,
  whose divergence is half the squared distance of the means; an optimizer step adds one
  to every parameter; the replay buffer counts its transitions.
\<close>

definition env1 :: "unit env" where
  "env1 = \<lparr>observation_space = Box [1], action_shape = [1], action_low = [Fin (- 1)],
           action_high = [Fin 1], num_envs = 1, world = ()\<rparr>"

definition lib1 :: "(unit, nat, nat, tensor, tensor list) lib" where
  "lib1 =
     \<lparr>cuda_is_available = False,
      Adam = (\<lambda>ps lr. 0),
      adam_step = (\<lambda>opt loss ps. (Suc opt, \<lambda>i j. fadd (ps ! i ! j) (Fin 1))),
      MorphologicalNetworks = (\<lambda>e cfg g. Inr ([Fin 0], g)),
      mc_forward = (\<lambda>m x a. Inr (x, map (map (\<lambda>v. Fin 0)) x)),
      mc_parameters = (\<lambda>m. [m]),
      mc_assign = (\<lambda>m ps. case ps of [] \<Rightarrow> m | p # _ \<Rightarrow> p),
      mc_state_dict = (\<lambda>m. [([length m], m)]),
      mc_load_state_dict =
        (\<lambda>m sd. case sd of [(sh, t)] \<Rightarrow> (if sh = [length m] then Inr t else Inl RuntimeError)
                 | _ \<Rightarrow> Inl RuntimeError),
      dist_log_prob = (\<lambda>d v. Inr (map2 (map2 (\<lambda>m x. fneg (fmul (fsub x m) (fsub x m)))) d v)),
      kl_divergence = (\<lambda>p q. map2 (map2 (\<lambda>a b. fmul (Fin (1 / 2)) (fmul (fsub a b) (fsub a b)))) p q),
      env_step = (\<lambda>e a. (e, Array [[Fin 0]], [Fin 1], [False], [[]])),
      action_space_sample = (\<lambda>e. ([Fin 0], e)),
      new_replay_buffer = (\<lambda>k n e. 0),
      buffer_add = (\<lambda>b ob nob a r d i. Suc b),
      fused_add = (\<lambda>i j. False)\<rparr>"

definition kwargs1 :: kwargs where
  "kwargs1 =
     default_kwargs\<lparr>kw_hidden_size := 1, kw_n_critics := 1, kw_tau := Fin (1 / 2),
                    kw_mc := [(''learning_rate'', Fin (1 / 10 ^ 3)), (''reward_eta'', Fin (1 / 2))]\<rparr>"

definition zeros :: rng where
  "zeros = (\<lambda>i. 0)"

definition counting :: rng where
  "counting = (\<lambda>i. real i)"

definition no_noise :: "nat \<Rightarrow> nat \<Rightarrow> real" where
  "no_noise = (\<lambda>i j. 0)"

text \<open>
  The engine that the constructor builds for this instance from the generator \<open>zeros\<close>
  (every weight and bias is zero), and the same engine with a logger.
\<close>

definition zero_layer :: "nat \<Rightarrow> linear" where
  "zero_layer n = \<lparr>in_features = n, weight = replicate n (Fin 0), bias = [Fin 0]\<rparr>"

definition engine0 :: "(unit, nat, nat, tensor) engine" where
  "engine0 =
     \<lparr>device = ''cpu'', learning_rate = Fin (3 / 10 ^ 4), buffer_size = 1000000, batch_size = 256,
      learning_starts = 100, tau = Fin (1 / 2), gamma = Fin (99 / 100), n_critics = 1,
      hidden_size = 1,
      mc = [(''learning_rate'', Fin (1 / 10 ^ 3)), (''reward_eta'', Fin (1 / 2))],
      env = env1, replay_buffer = 0,
      actor = Actor (zero_layer 1) (zero_layer 1) (zero_layer 1) (zero_layer 1) (zero_layer 1)
                [Fin 1] [Fin 0],
      actor_optimizer = 0,
      critic = [Critic (zero_layer 2) (zero_layer 1) (zero_layer 1) (zero_layer 1)],
      critic_target = [Critic (zero_layer 2) (zero_layer 1) (zero_layer 1) (zero_layer 1)],
      critic_optimizer = 0, mc_network = [Fin 0], mc_optimizer = 0, ent_coef = Auto,
      target_entropy = Some (Fin (- 1)), log_ent_coef = Some (Fin 0), ent_coef_optimizer = Some 0,
      ent_coef_tensor = None, logger = None, last_obs = None, num_timesteps = 0, n_updates = 0\<rparr>"

definition engine1 :: "(unit, nat, nat, tensor) engine" where
  "engine1 = set_logger engine0 []"

text \<open>
  An engine further on in its life: it has taken 500 environment steps and 400 training
  steps, and the first bias of its critic has moved away from the target's.
\<close>

definition engine2 :: "(unit, nat, nat, tensor) engine" where
  "engine2 =
     engine1\<lparr>critic := [Critic ((zero_layer 2)\<lparr>bias := [Fin 1]\<rparr>) (zero_layer 1) (zero_layer 1)
                           (zero_layer 1)],
             num_timesteps := 500, n_updates := 400\<rparr>"

text \<open>
  An engine with the default \<open>tau\<close>, whose critics and target critics have the first
  weights 10.
\<close>

definition engine3 :: "(unit, nat, nat, tensor) engine" where
  "engine3 =
     engine1\<lparr>tau := Fin (5 / 10 ^ 3),
             critic := [Critic ((zero_layer 2)\<lparr>weight := [Fin 10, Fin 10]\<rparr>) (zero_layer 1)
                           (zero_layer 1) (zero_layer 1)],
             critic_target := [Critic ((zero_layer 2)\<lparr>weight := [Fin 10, Fin 10]\<rparr>) (zero_layer 1)
                           (zero_layer 1) (zero_layer 1)]\<rparr>"

text \<open>
  An environment whose one action lies between \<open>-5\<close> and the float32 number next to
  \<open>-4.9\<close>, and a generator that gives the constructor of the policy the bias 20 for the mean
  of the action and zero for every other weight and bias.
\<close>

definition env5 :: "unit env" where
  "env5 = \<lparr>observation_space = Box [1], action_shape = [1], action_low = [Fin (- 5)],
           action_high = [Fin (- 10276045 / 2 ^ 21)], num_envs = 1, world = ()\<rparr>"

definition rng5 :: rng where
  "rng5 = (\<lambda>i. if i = 7 then 20 else 0)"

text \<open>The same, for an action between \<open>- 2 ^ 100\<close> and \<open>2 ^ 100\<close>.\<close>

definition env6 :: "unit env" where
  "env6 = \<lparr>observation_space = Box [1], action_shape = [1], action_low = [Fin (- (2 ^ 100))],
           action_high = [Fin (2 ^ 100)], num_envs = 1, world = ()\<rparr>"

text \<open>
  A batch of one transition: from observation 0, action 0 led to observation 2 with
  reward 1, and the episode went on.
\<close>

definition batch1 :: replay_data where
  "batch1 = \<lparr>observations = Array [[Fin 0]], actions = [[Fin 0]],
              next_observations = Array [[Fin 2]], dones = [[Fin 0]], rewards = [[Fin 1]]\<rparr>"

text \<open>The same collaborators, with a divergence that evaluates to NaN for every feature.\<close>

definition lib_nan :: "(unit, nat, nat, tensor, tensor list) lib" where
  "lib_nan = lib1\<lparr>kl_divergence := (\<lambda>p q. map (map (\<lambda>v. NaN)) p)\<rparr>"

text \<open>The keys and the entries that a logger has recorded.\<close>

fun entry_key :: "log_entry \<Rightarrow> string" where
  "entry_key (Record k v) = k"
| "entry_key (Record_mean k v) = k"

definition entries :: "('w, 'buf, 'opt, 'mc) engine \<Rightarrow> log_entry list" where
  "entries s = (case logger s of None \<Rightarrow> [] | Some es \<Rightarrow> es)"

text \<open>
  The density of the normal distribution with mean \<open>m\<close> and standard deviation \<open>s\<close>, at
  \<open>v\<close>. It is not part of the program: the log-probability of the policy is compared
  with it.
\<close>

definition gaussian_density :: "real \<Rightarrow> real \<Rightarrow> real \<Rightarrow> real" where
  "gaussian_density m s v = exp (- ((v - m)\<^sup>2) / (2 * s\<^sup>2)) / (s * sqrt (2 * pi))"

section \<open>Basic facts\<close>

lemma bind_eq_Inr: "bind m f = Inr r \<longleftrightarrow> (\<exists>v. m = Inr v \<and> f v = Inr r)"
  by (cases m) (simp_all add: bind_def)

lemma length_linear_state_dict [simp]: "length (linear_state_dict l) = 2"
  by (simp add: linear_state_dict_def)

lemma length_critic_state_dict [simp]: "length (critic_state_dict c) = 8"
  by (cases c) simp

lemma length_critic_parameters [simp]: "length (critic_parameters c) = 8"
  by (cases c) (simp add: linear_parameters_def)

section \<open>Rounding\<close>

lemma floor_log2_eq:
  assumes "2 powi e \<le> \<bar>x\<bar>" "\<bar>x\<bar> < 2 powi (e + 1)"
  shows "\<lfloor>log 2 \<bar>x\<bar>\<rfloor> = e"
proof -
  have "0 < (2::real) powi e" by simp
  with assms(1) have p: "0 < \<bar>x\<bar>" by linarith
  have e: "(2::real) powi e = 2 powr real_of_int e"
    "(2::real) powi (e + 1) = 2 powr real_of_int (e + 1)"
    using powr_real_of_int'[of 2 e] powr_real_of_int'[of 2 "e + 1"] by simp_all
  have "real_of_int e \<le> log 2 \<bar>x\<bar>"
    using assms(1) p unfolding e by (simp add: le_log_iff)
  moreover have "log 2 \<bar>x\<bar> < real_of_int (e + 1)"
    using assms(2) p unfolding e by (simp add: log_less_iff)
  ultimately show ?thesis by (simp add: floor_eq_iff)
qed

text \<open>Rounding a number whose binary exponent \<open>e\<close> is known.\<close>

lemma round_to_eq:
  assumes "2 powi e \<le> \<bar>x\<bar>" "\<bar>x\<bar> < 2 powi (e + 1)" "emin \<le> e"
  shows "round_to p emin emax x =
     (let u = 2 powi (e - int p + 1); q = of_int (round_even (x / u)) * u
      in if 2 powi (emax + 1) \<le> \<bar>q\<bar> then (if 0 < x then PInf else NInf) else Fin q)"
proof -
  have "0 < (2::real) powi e" by simp
  with assms(1) have "x \<noteq> 0" by (cases "x = 0") simp_all
  moreover have "\<lfloor>log 2 \<bar>x\<bar>\<rfloor> = e" using assms(1,2) by (rule floor_log2_eq)
  ultimately show ?thesis using assms(3) by (simp add: round_to_def max_def)
qed

lemma round32_0 [simp]: "round32 0 = Fin 0"
  by (simp add: round32_def round_to_def)

lemma round32_1 [simp]: "round32 1 = Fin 1"
  unfolding round32_def
  by (subst round_to_eq[where e = 0]) (simp_all add: round_even_def Let_def)

lemma round32_2 [simp]: "round32 2 = Fin 2"
  unfolding round32_def
  by (subst round_to_eq[where e = 1]) (simp_all add: round_even_def Let_def)

lemma round32_eq:
  assumes "2 powi e \<le> \<bar>x\<bar>" "\<bar>x\<bar> < 2 powi (e + 1)" "- 126 \<le> e"
  shows "round32 x =
     (let u = 2 powi (e - 23); q = of_int (round_even (x / u)) * u
      in if 2 ^ 128 \<le> \<bar>q\<bar> then (if 0 < x then PInf else NInf) else Fin q)"
  unfolding round32_def using round_to_eq[OF assms(1,2), of "- 126" 24 127] assms(3) by simp

lemma round64_eq:
  assumes "2 powi e \<le> \<bar>x\<bar>" "\<bar>x\<bar> < 2 powi (e + 1)" "- 1022 \<le> e"
  shows "round64 x =
     (let u = 2 powi (e - 52); q = of_int (round_even (x / u)) * u
      in if 2 ^ 1024 \<le> \<bar>q\<bar> then (if 0 < x then PInf else NInf) else Fin q)"
  unfolding round64_def using round_to_eq[OF assms(1,2), of "- 1022" 53 1023] assms(3) by simp

lemma round_half [simp]: "round32 (1 / 2) = Fin (1 / 2)" "round64 (1 / 2) = Fin (1 / 2)"
  by (subst round32_eq[where e = "- 1"] round64_eq[where e = "- 1"];
      simp add: round_even_def Let_def)+

lemma rnd32_simps [simp]: "rnd32 (Fin 0) = Fin 0" "rnd32 (Fin 1) = Fin 1" "rnd32 (Fin 2) = Fin 2"
  by simp_all

text \<open>
  The error of rounding: half a unit in the last place, which is at most the \<open>2 ^ 24\<close>-th
  part of the number, or \<open>2 ^ - 150\<close> for a subnormal result.
\<close>

lemma round_even_error: "\<bar>real_of_int (round_even r) - r\<bar> \<le> 1 / 2"
proof -
  have "real_of_int \<lfloor>r\<rfloor> \<le> r" "r < real_of_int \<lfloor>r\<rfloor> + 1" by linarith+
  then show ?thesis by (auto simp: round_even_def Let_def)
qed

lemma round32_error:
  assumes "\<bar>x\<bar> \<le> 2 ^ 126"
  shows "\<exists>q. round32 x = Fin q \<and> \<bar>q - x\<bar> \<le> \<bar>x\<bar> / 2 ^ 24 + 1 / 2 ^ 150"
proof (cases "x = 0")
  case True
  then show ?thesis by simp
next
  case False
  define l where "l = \<lfloor>log 2 \<bar>x\<bar>\<rfloor>"
  define e where "e = max l (- 126)"
  define u :: real where "u = 2 powi (e - 23)"
  define q where "q = real_of_int (round_even (x / u)) * u"
  have u: "0 < u" by (simp add: u_def)
  have p: "0 < \<bar>x\<bar>" using False by simp
  have l1: "2 powi l \<le> \<bar>x\<bar>"
  proof -
    have "real_of_int l \<le> log 2 \<bar>x\<bar>" unfolding l_def by linarith
    then have "2 powr real_of_int l \<le> \<bar>x\<bar>" using p by (simp add: le_log_iff)
    then show ?thesis using powr_real_of_int'[of 2 l] by simp
  qed
  have l2: "l \<le> 126"
  proof (rule ccontr)
    assume "\<not> l \<le> 126"
    then have "127 \<le> l" by simp
    then have "(2::real) powi 127 \<le> 2 powi l" by (intro power_int_increasing) simp_all
    with l1 assms show False by simp
  qed
  have "\<bar>real_of_int (round_even (x / u)) - x / u\<bar> \<le> 1 / 2" by (rule round_even_error)
  then have "\<bar>real_of_int (round_even (x / u)) - x / u\<bar> * u \<le> 1 / 2 * u"
    using u by (intro mult_right_mono) simp_all
  moreover have "\<bar>real_of_int (round_even (x / u)) - x / u\<bar> * u = \<bar>q - x\<bar>"
  proof -
    have "q - x = (real_of_int (round_even (x / u)) - x / u) * u"
      using u by (simp add: q_def left_diff_distrib)
    then show ?thesis using u by (simp add: abs_mult)
  qed
  ultimately have d: "\<bar>q - x\<bar> \<le> u / 2" by simp
  have b: "u / 2 \<le> \<bar>x\<bar> / 2 ^ 24 + 1 / 2 ^ 150"
  proof (cases "- 126 \<le> l")
    case True
    then have "u = 2 powi l / 2 ^ 23" by (simp add: u_def e_def max_def power_int_diff)
    then have "u / 2 = 2 powi l / 2 ^ 24" by simp
    also have "\<dots> \<le> \<bar>x\<bar> / 2 ^ 24" using l1 by (simp add: divide_right_mono)
    finally show ?thesis by simp
  next
    case False
    then have "u = 2 powi (- 149)" by (simp add: u_def e_def max_def)
    then show ?thesis using p by (simp add: power_int_minus)
  qed
  have "e \<le> 126" using l2 by (simp add: e_def)
  then have "u \<le> 2 powi (126 - 23)" unfolding u_def by (intro power_int_increasing) simp_all
  then have u2: "u \<le> 2 ^ 103" by simp
  have "\<bar>q\<bar> \<le> \<bar>x\<bar> + u / 2" using d by linarith
  also have "\<dots> < 2 ^ 128" using assms u2 by simp
  finally have o: "\<not> 2 powi (127 + 1) \<le> \<bar>q\<bar>" by simp
  have "round32 x = Fin q"
    using False o unfolding round32_def round_to_def
    by (simp add: Let_def l_def[symmetric] e_def[symmetric] u_def[symmetric] q_def[symmetric])
  with d b show ?thesis by (intro exI[of _ q]) simp
qed

lemma round32_pow: "round32 (2 ^ 100) = Fin (2 ^ 100)" "round32 (2 ^ 101) = Fin (2 ^ 101)"
  by (subst round32_eq[where e = 100] round32_eq[where e = 101];
      simp add: round_even_def Let_def)+

section \<open>Loading a state dictionary\<close>

lemma linear_assign_state_dict:
  "map fst (linear_state_dict l') = map fst (linear_state_dict l) \<Longrightarrow>
   linear_assign l (map snd (linear_state_dict l')) = l'"
  by (simp add: linear_state_dict_def linear_assign_def overwrite_def linear_parameters_def)

lemma critic_assign_state_dict:
  assumes "map fst (critic_state_dict c') = map fst (critic_state_dict c)"
  shows "critic_assign c (map snd (critic_state_dict c')) = c'"
proof -
  obtain f1 f2 f3 f4 where c: "c = Critic f1 f2 f3 f4" by (cases c)
  obtain g1 g2 g3 g4 where c': "c' = Critic g1 g2 g3 g4" by (cases c')
  from assms have sh: "map fst (linear_state_dict g1) = map fst (linear_state_dict f1)"
    "map fst (linear_state_dict g2) = map fst (linear_state_dict f2)"
    "map fst (linear_state_dict g3) = map fst (linear_state_dict f3)"
    "map fst (linear_state_dict g4) = map fst (linear_state_dict f4)"
    by (simp_all add: c c')
  show ?thesis
    using sh by (simp add: c c' overwrite_def linear_parameters_def linear_assign_state_dict)
qed

lemma ensemble_assign_state_dict:
  "map fst (ensemble_state_dict cs') = map fst (ensemble_state_dict cs) \<Longrightarrow>
   ensemble_assign cs (map snd (ensemble_state_dict cs')) = cs'"
proof (induction cs arbitrary: cs')
  case Nil
  then show ?case by (cases cs') (auto simp: ensemble_state_dict_def dest: arg_cong[where f=length])
next
  case (Cons c cs)
  from Cons.prems obtain c' cs'' where cs': "cs' = c' # cs''"
    by (cases cs') (auto simp: ensemble_state_dict_def dest: arg_cong[where f=length])
  from Cons.prems have eq: "map fst (critic_state_dict c') @ map fst (ensemble_state_dict cs'')
      = map fst (critic_state_dict c) @ map fst (ensemble_state_dict cs)"
    by (simp add: cs' ensemble_state_dict_def)
  have h: "map fst (critic_state_dict c') = map fst (critic_state_dict c)"
    and t: "map fst (ensemble_state_dict cs'') = map fst (ensemble_state_dict cs)"
    using eq by (auto dest: append_eq_append_conv[THEN iffD1, rotated])
  show ?case
    using critic_assign_state_dict[OF h] Cons.IH[OF t]
    by (simp add: cs' ensemble_state_dict_def)
qed

lemma ensemble_load_own_state_dict:
  "ensemble_load_state_dict ct (ensemble_state_dict c) = Inr r \<Longrightarrow> r = c"
  by (auto simp: ensemble_load_state_dict_def ensemble_assign_state_dict split: if_splits)

section \<open>Construction\<close>

lemma create_actor_critic_target:
  assumes "create_actor_critic L e lr n h cfg g = Inr (a, ao, c, ct, co, m, mo)"
  shows "ct = c"
  using assms
  by (auto simp: create_actor_critic_def bind_eq_Inr Let_def split: prod.splits
           dest: ensemble_load_own_state_dict)

lemma init1: "\<exists>m. CLEANSACMC_init lib1 env1 kwargs1 counting = Inr m"
  by (simp add: CLEANSACMC_init_def env1_def kwargs1_def default_kwargs_def create_actor_critic_def
     Actor_init_def Linear_def draw_def Critic_init_def lib1_def bind_def lookup_def
     ensemble_load_state_dict_def ensemble_state_dict_def linear_state_dict_def Let_def)

lemma init_critic_target:
  assumes "CLEANSACMC_init L e kw g = Inr m"
  shows "critic_target m = critic m"
  using assms
  by (auto simp: CLEANSACMC_init_def bind_eq_Inr split: if_splits prod.splits
           dest: create_actor_critic_target)

lemma init_counters:
  "CLEANSACMC_init L e kw g = Inr m \<Longrightarrow> num_timesteps m = 0 \<and> n_updates m = 0"
  by (auto simp: CLEANSACMC_init_def bind_eq_Inr split: if_splits)

lemma lib1_simps:
  "cuda_is_available lib1 = False"
  "Adam lib1 = (\<lambda>ps lr. 0)"
  "adam_step lib1 = (\<lambda>opt loss ps. (Suc opt, \<lambda>i j. fadd (ps ! i ! j) (Fin 1)))"
  "MorphologicalNetworks lib1 = (\<lambda>e cfg g. Inr ([Fin 0], g))"
  "mc_forward lib1 = (\<lambda>m x a. Inr (x, map (map (\<lambda>v. Fin 0)) x))"
  "mc_parameters lib1 = (\<lambda>m. [m])"
  "mc_assign lib1 = (\<lambda>m ps. case ps of [] \<Rightarrow> m | p # _ \<Rightarrow> p)"
  "mc_state_dict lib1 = (\<lambda>m. [([length m], m)])"
  "mc_load_state_dict lib1 =
        (\<lambda>m sd. case sd of [(sh, t)] \<Rightarrow> (if sh = [length m] then Inr t else Inl RuntimeError)
                 | _ \<Rightarrow> Inl RuntimeError)"
  "dist_log_prob lib1 = (\<lambda>d v. Inr (map2 (map2 (\<lambda>m x. fneg (fmul (fsub x m) (fsub x m)))) d v))"
  "kl_divergence lib1 = (\<lambda>p q. map2 (map2 (\<lambda>a b. fmul (Fin (1 / 2)) (fmul (fsub a b) (fsub a b)))) p q)"
  "env_step lib1 = (\<lambda>e a. (e, Array [[Fin 0]], [Fin 1], [False], [[]]))"
  "action_space_sample lib1 = (\<lambda>e. ([Fin 0], e))"
  "new_replay_buffer lib1 = (\<lambda>k n e. 0)"
  "buffer_add lib1 = (\<lambda>b ob nob a r d i. Suc b)"
  "fused_add lib1 = (\<lambda>i j. False)"
  by (simp_all add: lib1_def)

lemmas engine_defs = engine2_def engine1_def engine0_def set_logger_def zero_layer_def

lemma init0: "CLEANSACMC_init lib1 env1 kwargs1 zeros = Inr engine0"
  by (simp add: CLEANSACMC_init_def env1_def kwargs1_def default_kwargs_def create_actor_critic_def
     Actor_init_def Linear_def draw_def zeros_def Critic_init_def lib1_def bind_def lookup_def
     ensemble_load_state_dict_def ensemble_state_dict_def linear_state_dict_def Let_def
     overwrite_def linear_assign_def linear_parameters_def ensemble_parameters_def numeral_2_eq_2
     engine0_def zero_layer_def fsub_def sub32_def add32_def div32_def)

text \<open>
  C5. Whenever the constructor returns an engine, its target critic ensemble is equal to
  its critic ensemble: the freshly initialised target is overwritten with the state
  dictionary of the critics, tensor by tensor, without any arithmetic.
\<close>

theorem init_target_equals_critic:
  assumes "CLEANSACMC_init L e kw g = Inr m"
  shows "critic_target m = critic m"
  using assms by (rule init_critic_target)

theorem init_target_equals_critic_witness:
  "\<exists>m. CLEANSACMC_init lib1 env1 kwargs1 counting = Inr m \<and> critic_target m = critic m"
  using init1 init_target_equals_critic by blast

section \<open>Saving and loading\<close>

lemma keys_del_key: "del_key d k = Inr d' \<Longrightarrow> fst ` set d' = fst ` set d - {k}"
  by (auto simp: del_key_def split: if_splits)

lemma keys_del_keys: "del_keys d ks = Inr d' \<Longrightarrow> fst ` set d' = fst ` set d - set ks"
proof (induction ks arbitrary: d)
  case Nil then show ?case by simp
next
  case (Cons k ks)
  from Cons.prems obtain v where a: "del_key d k = Inr v" and b: "del_keys v ks = Inr d'"
    by (auto simp: bind_eq_Inr)
  from Cons.IH[OF b] keys_del_key[OF a] show ?case by auto
qed

lemma keys_dict_set: "fst ` set (dict_set d k v) = insert k (fst ` set d)"
  by (auto simp: dict_set_def split: if_splits) force+

lemma save_parts:
  assumes "save L s = Inr file"
  obtains d where
    "del_keys (attributes s)
       [''logger'', ''env'', ''num_timesteps'', ''_n_updates'', ''_last_obs'', ''replay_buffer'',
        ''actor'', ''critic'', ''critic_target''] = Inr d"
    and "file = dict_set (dict_set (dict_set d ''_actor'' (PStateDict (actor_state_dict (actor s))))
           ''_critic'' (PStateDict (ensemble_state_dict (critic s))))
           ''_mc'' (PStateDict (mc_state_dict L (mc_network s)))"
  using assms unfolding save_def bind_eq_Inr Let_def by auto

lemma keys_save:
  assumes "save L s = Inr file"
  shows "fst ` set file =
   (fst ` set (attributes s) -
     set [''logger'', ''env'', ''num_timesteps'', ''_n_updates'', ''_last_obs'', ''replay_buffer'',
              ''actor'', ''critic'', ''critic_target'']) \<union> {''_actor'', ''_critic'', ''_mc''}"
proof -
  from assms obtain d where d: "del_keys (attributes s)
             [''logger'', ''env'', ''num_timesteps'', ''_n_updates'', ''_last_obs'', ''replay_buffer'',
              ''actor'', ''critic'', ''critic_target''] = Inr d"
    and f: "file = dict_set (dict_set (dict_set d ''_actor'' (PStateDict (actor_state_dict (actor s))))
       ''_critic'' (PStateDict (ensemble_state_dict (critic s))))
       ''_mc'' (PStateDict (mc_state_dict L (mc_network s)))"
    by (rule save_parts)
  show ?thesis unfolding f keys_dict_set keys_del_keys[OF d] by blast
qed

lemma foldl_preserve:
  assumes "\<And>m x. x \<in> set d \<Longrightarrow> f (step m x) = f m"
  shows "f (foldl step m0 d) = f m0"
  using assms by (induction d arbitrary: m0) simp_all

lemma foldl_setattr_preserve:
  assumes "K \<notin> fst ` set d" and "\<And>m k v. k \<noteq> K \<Longrightarrow> f (setattr m k v) = f m"
  shows "f (foldl (\<lambda>m (k, v). if k \<notin> set X then setattr m k v else m) m0 d) = f m0"
proof (rule foldl_preserve)
  fix m x assume "x \<in> set d"
  then have "fst x \<noteq> K" using assms(1) by force
  then show "f (case x of (k, v) \<Rightarrow> if k \<notin> set X then setattr m k v else m) = f m"
    by (cases x) (simp add: assms(2))
qed

lemma setattr_num_timesteps:
  "k \<noteq> ''num_timesteps'' \<Longrightarrow> num_timesteps (setattr m k v) = num_timesteps m"
  by (cases v) (simp_all add: setattr_def)

lemma setattr_n_updates: "k \<noteq> ''_n_updates'' \<Longrightarrow> n_updates (setattr m k v) = n_updates m"
  by (cases v) (simp_all add: setattr_def)

lemma setattr_critic_target:
  "k \<noteq> ''critic_target'' \<Longrightarrow> critic_target (setattr m k v) = critic_target m"
  by (cases v) (simp_all add: setattr_def)

lemma load_fields:
  assumes "load L file e kw g = Inr m"
  obtains m0 sd where "CLEANSACMC_init L e kw g = Inr m0"
    and "num_timesteps m = num_timesteps (foldl (\<lambda>m (k, v). if k \<notin> set [''_actor'', ''_critic'', ''_mc''] then setattr m k v else m) m0 file)"
    and "n_updates m = n_updates (foldl (\<lambda>m (k, v). if k \<notin> set [''_actor'', ''_critic'', ''_mc''] then setattr m k v else m) m0 file)"
    and "critic_target m = critic_target (foldl (\<lambda>m (k, v). if k \<notin> set [''_actor'', ''_critic'', ''_mc''] then setattr m k v else m) m0 file)"
    and "get_state_dict file ''_critic'' = Inr sd"
    and "ensemble_load_state_dict (critic (foldl (\<lambda>m (k, v). if k \<notin> set [''_actor'', ''_critic'', ''_mc''] then setattr m k v else m) m0 file)) sd = Inr (critic m)"
  using assms unfolding load_def bind_eq_Inr Let_def by auto

lemma save_load_engine2:
  "\<exists>file m. save lib1 engine2 = Inr file \<and> load lib1 file env1 kwargs1 zeros = Inr m"
  apply (simp add: save_def attributes_def del_key_def bind_def dict_set_def engine_defs lib1_simps
     ensemble_state_dict_def linear_state_dict_def)
  apply (simp add: load_def init0 bind_def setattr_def get_state_dict_def lookup_def lib1_simps
     ensemble_load_state_dict_def ensemble_state_dict_def linear_state_dict_def engine_defs
     overwrite_def linear_assign_def linear_parameters_def Let_def)
  done

text \<open>
  C10. A checkpoint written by \<open>save\<close> has no entry for \<open>num_timesteps\<close> or \<open>_n_updates\<close>,
  and \<open>load\<close> sets nothing but the entries of the checkpoint on the engine it has just
  constructed: after \<open>load\<close> both counters are zero, whatever they were when the engine
  was saved.
\<close>

theorem load_resets_counters:
  assumes "save L s = Inr file" and "load L file e kw g = Inr m"
  shows "num_timesteps m = 0 \<and> n_updates m = 0"
proof -
  have k1: "''num_timesteps'' \<notin> fst ` set file" and k2: "''_n_updates'' \<notin> fst ` set file"
    unfolding keys_save[OF assms(1)] by auto
  from assms(2) obtain m0 where i: "CLEANSACMC_init L e kw g = Inr m0"
    and a: "num_timesteps m = num_timesteps (foldl (\<lambda>m (k, v). if k \<notin> set [''_actor'', ''_critic'', ''_mc''] then setattr m k v else m) m0 file)"
    and b: "n_updates m = n_updates (foldl (\<lambda>m (k, v). if k \<notin> set [''_actor'', ''_critic'', ''_mc''] then setattr m k v else m) m0 file)"
    by (rule load_fields)
  have "num_timesteps m = num_timesteps m0"
    unfolding a using k1 by (rule foldl_setattr_preserve) (rule setattr_num_timesteps)
  moreover have "n_updates m = n_updates m0"
    unfolding b using k2 by (rule foldl_setattr_preserve) (rule setattr_n_updates)
  ultimately show ?thesis using init_counters[OF i] by simp
qed

theorem load_resets_counters_witness:
  "num_timesteps engine2 = 500 \<and> n_updates engine2 = 400 \<and>
   (\<exists>file m. save lib1 engine2 = Inr file \<and> load lib1 file env1 kwargs1 zeros = Inr m \<and>
      num_timesteps m = 0 \<and> n_updates m = 0)"
proof -
  obtain ckpt m where s: "save lib1 engine2 = Inr ckpt"
    and l: "load lib1 ckpt env1 kwargs1 zeros = Inr m"
    using save_load_engine2 by blast
  from load_resets_counters[OF s l] s l show ?thesis
    by (auto simp: engine2_def)
qed

lemma map_of_replace_same:
  "map_of (map (\<lambda>(k', v'). if k' = k then (k', v) else (k', v')) d) k =
     (case map_of d k of None \<Rightarrow> None | Some u \<Rightarrow> Some v)"
  by (induction d) (simp_all split: prod.splits)

lemma map_of_replace_other:
  "k' \<noteq> k \<Longrightarrow> map_of (map (\<lambda>(k', v'). if k' = k then (k', v) else (k', v')) d) k' = map_of d k'"
  by (induction d) (simp_all split: prod.splits)

lemma map_of_replace:
  "map_of (map (\<lambda>(k', v'). if k' = k then (k', v) else (k', v')) d) k' =
     (if k' = k then (case map_of d k of None \<Rightarrow> None | Some u \<Rightarrow> Some v) else map_of d k')"
  by (simp add: map_of_replace_same map_of_replace_other)

lemma map_of_dict_set: "map_of (dict_set d k v) k' = (if k' = k then Some v else map_of d k')"
proof (cases "k \<in> fst ` set d")
  case True
  then obtain u where "map_of d k = Some u"
    by (metis map_of_eq_None_iff not_Some_eq)
  with True show ?thesis by (simp add: dict_set_def map_of_replace)
next
  case False
  then have "map_of d k = None" by (simp add: map_of_eq_None_iff)
  with False show ?thesis by (simp add: dict_set_def map_add_def split: option.splits)
qed

lemma save_critic_entry:
  assumes "save L s = Inr file"
  shows "get_state_dict file ''_critic'' = Inr (ensemble_state_dict (critic s))"
proof -
  from assms obtain d where f: "file = dict_set (dict_set (dict_set d ''_actor'' (PStateDict (actor_state_dict (actor s))))
           ''_critic'' (PStateDict (ensemble_state_dict (critic s))))
           ''_mc'' (PStateDict (mc_state_dict L (mc_network s)))"
    by (rule save_parts)
  show ?thesis by (simp add: f get_state_dict_def lookup_def map_of_dict_set bind_def)
qed

lemma load_critics:
  assumes "save L s = Inr file" and "load L file e kw g = Inr m"
    and "CLEANSACMC_init L e kw g = Inr m0"
  shows "critic_target m = critic m0 \<and> critic m = critic s"
proof -
  have k: "''critic_target'' \<notin> fst ` set file"
    unfolding keys_save[OF assms(1)] by auto
  from assms(2) obtain m0' sd where i: "CLEANSACMC_init L e kw g = Inr m0'"
    and a: "critic_target m = critic_target (foldl (\<lambda>m (k, v). if k \<notin> set [''_actor'', ''_critic'', ''_mc''] then setattr m k v else m) m0' file)"
    and b: "get_state_dict file ''_critic'' = Inr sd"
    and c: "ensemble_load_state_dict (critic (foldl (\<lambda>m (k, v). if k \<notin> set [''_actor'', ''_critic'', ''_mc''] then setattr m k v else m) m0' file)) sd = Inr (critic m)"
    by (rule load_fields)
  from i assms(3) have m0': "m0' = m0" by simp
  have "critic_target m = critic_target m0"
    unfolding a m0' using k by (rule foldl_setattr_preserve) (rule setattr_critic_target)
  moreover from b save_critic_entry[OF assms(1)] have "sd = ensemble_state_dict (critic s)" by simp
  with c have "critic m = critic s" using ensemble_load_own_state_dict by blast
  ultimately show ?thesis using init_critic_target[OF assms(3)] by simp
qed

text \<open>
  C2. The checkpoint has no entry for the target critics, and \<open>load\<close> leaves the target of
  the newly constructed engine as the constructor made it: a copy of the new, randomly
  initialised critics. For the engine \<open>engine2\<close>, saved and loaded, the critics are those
  of the checkpoint and the target critics are not.
\<close>

theorem load_target_not_restored:
  "\<exists>file m. save lib1 engine2 = Inr file \<and> load lib1 file env1 kwargs1 zeros = Inr m \<and>
     critic m = critic engine2 \<and> critic_target m = critic engine0 \<and> critic_target m \<noteq> critic m"
proof -
  obtain ckpt m where s: "save lib1 engine2 = Inr ckpt"
    and l: "load lib1 ckpt env1 kwargs1 zeros = Inr m"
    using save_load_engine2 by blast
  from load_critics[OF s l init0] have "critic_target m = critic engine0" "critic m = critic engine2"
    by simp_all
  moreover have "critic engine0 \<noteq> critic engine2" by (simp add: engine_defs)
  ultimately show ?thesis using s l by auto
qed

section \<open>Reward composition\<close>

lemma log_record_iff:
  "log_record k v s = Inr s' \<longleftrightarrow> (\<exists>es. logger s = Some es \<and> s' = s\<lparr>logger := Some (es @ [Record k v])\<rparr>)"
  by (auto simp: log_record_def split: option.splits)

lemma log_record_mean_iff:
  "log_record_mean k v s = Inr s' \<longleftrightarrow>
     (\<exists>es. logger s = Some es \<and> s' = s\<lparr>logger := Some (es @ [Record_mean k v])\<rparr>)"
  by (auto simp: log_record_mean_def split: option.splits)

lemma lookup_iff: "lookup d k = Inr v \<longleftrightarrow> map_of d k = Some v"
  by (auto simp: lookup_def split: option.splits)

lemma calc_reward_iff:
  "calc_reward L s obsv acts e_rewards ex = Inr (r, s') \<longleftrightarrow>
     (\<exists>fwd wld eta es.
        mc_forward L (mc_network s) obsv acts = Inr (fwd, wld) \<and>
        map_of (mc s) ''reward_eta'' = Some eta \<and> logger s = Some es \<and>
        r = map2 (map2 fadd) e_rewards (map (\<lambda>row. [fmul (fmean row) eta]) (kl_divergence L fwd wld)) \<and>
        s' = s\<lparr>logger := Some (es @ map (\<lambda>(k, v). if ex then Record k v else Record_mean k v)
               [(''mc/i_reward'', fmean (concat (map (\<lambda>row. [fmul (fmean row) eta]) (kl_divergence L fwd wld)))),
                (''mc/e_reward'', fmean (concat e_rewards)),
                (''mc/kld'', fmean (concat (map (\<lambda>row. [fmean row]) (kl_divergence L fwd wld)))),
                (''mc/reward'', fmean (concat r))])\<rparr>)"
  by (cases ex)
     (auto simp: calc_reward_def bind_eq_Inr lookup_iff log_record_iff log_record_mean_iff Let_def
        comp_def)


lemma fadd_zero_right [simp]: "fadd r (Fin 0) = r"
  by (cases r) simp_all

lemma fmul_zero_finite: "is_finite e \<Longrightarrow> fmul e (Fin 0) = Fin 0"
  by (cases e) simp_all

lemma add_zero_rows:
  "map length e = map (\<lambda>row. 1) k \<Longrightarrow> map2 (map2 fadd) e (map (\<lambda>row. [Fin 0]) k) = e"
proof (induction e arbitrary: k)
  case Nil
  then show ?case by simp
next
  case (Cons r e)
  then obtain x k' where k: "k = x # k'" by (cases k) auto
  from Cons.prems obtain v where r: "r = [v]" by (cases r) (auto simp: k)
  from Cons.prems have "map length e = map (\<lambda>row. 1) k'" by (simp add: k)
  from Cons.IH[OF this] show ?case by (simp add: k r)
qed

text \<open>
  C6. With \<open>reward_eta = 0\<close> the reward composer returns the extrinsic rewards unchanged,
  whenever the divergence of every sample is finite (\<open>inf * 0\<close> would be NaN) and the
  extrinsic rewards have the shape \<open>[B, 1]\<close> of the divergences.
\<close>

theorem calc_reward_eta_zero:
  assumes "calc_reward L s obsv acts e_rewards ex = Inr (r, s')"
    and "map_of (mc s) ''reward_eta'' = Some (Fin 0)"
    and "mc_forward L (mc_network s) obsv acts = Inr (fwd, wld)"
    and "list_all (\<lambda>row. is_finite (fmean row)) (kl_divergence L fwd wld)"
    and "map length e_rewards = map (\<lambda>row. 1) (kl_divergence L fwd wld)"
  shows "r = e_rewards"
proof -
  from assms(1-3) have r: "r = map2 (map2 fadd) e_rewards
      (map (\<lambda>row. [fmul (fmean row) (Fin 0)]) (kl_divergence L fwd wld))"
    by (auto simp: calc_reward_iff)
  have "map (\<lambda>row. [fmul (fmean row) (Fin 0)]) (kl_divergence L fwd wld)
      = map (\<lambda>row. [Fin 0]) (kl_divergence L fwd wld)"
    using assms(4) by (simp add: list_all_iff fmul_zero_finite)
  with r assms(5) show ?thesis by (simp add: add_zero_rows)
qed

lemma calc_reward_eta_zero_run:
  "\<exists>r s'. calc_reward lib1 (engine1\<lparr>mc := [(''reward_eta'', Fin 0)]\<rparr>) [[Fin 3]] [[Fin 0]] [[Fin 7]] False
      = Inr (r, s')"
  by (simp add: calc_reward_iff lib1_simps engine_defs)

theorem calc_reward_eta_zero_witness:
  "\<exists>s'. calc_reward lib1 (engine1\<lparr>mc := [(''reward_eta'', Fin 0)]\<rparr>) [[Fin 3]] [[Fin 0]] [[Fin 7]] False
      = Inr ([[Fin 7]], s') \<and>
     kl_divergence lib1 [[Fin 3]] [[Fin 0]] = [[Fin (9 / 2)]]"
proof -
  obtain r s' where c: "calc_reward lib1 (engine1\<lparr>mc := [(''reward_eta'', Fin 0)]\<rparr>) [[Fin 3]] [[Fin 0]]
      [[Fin 7]] False = Inr (r, s')"
    using calc_reward_eta_zero_run by blast
  have k: "kl_divergence lib1 [[Fin 3]] [[Fin 0]] = [[Fin (9 / 2)]]"
    by (simp add: lib1_simps fsub_def)
  have "r = [[Fin 7]]"
    by (rule calc_reward_eta_zero[OF c, where fwd = "[[Fin 3]]" and wld = "[[Fin 0]]"])
       (simp_all add: engine_defs lib1_simps fsub_def fmean_def fsum_def)
  with c k show ?thesis by simp
qed

section \<open>The stages of the training step\<close>

lemma train_mc_iff:
  "train_mc L s obsv next_obsv acts = Inr s' \<longleftrightarrow>
     (\<exists>fw w loss es. mc_losses L (mc_network s) obsv next_obsv acts = Inr (fw, w, loss) \<and>
        logger s = Some es \<and>
        s' = s\<lparr>logger := Some (es @ [Record ''mc/fw_loss'' (fmean (concat fw)),
                                       Record ''mc/w_prime_a_loss'' (fmean (concat w)),
                                       Record ''mc/loss'' loss]),
               mc_network := mc_assign L (mc_network s)
                 (inplace (snd (mc_step L s obsv next_obsv acts)) (mc_parameters L (mc_network s))),
               mc_optimizer := fst (mc_step L s obsv next_obsv acts)\<rparr>)"
  by (auto simp: train_mc_def bind_eq_Inr log_record_iff Let_def case_prod_beta mc_step_def)

lemma update_ent_coef_Auto_iff:
  assumes "ent_coef s = Auto"
  shows "update_ent_coef L s obsv eps = Inr (c, s') \<longleftrightarrow>
     (\<exists>a log_pi lec t_entropy opt es.
        get_action (actor s) obsv eps = Inr (a, log_pi) \<and> log_ent_coef s = Some lec \<and>
        target_entropy s = Some t_entropy \<and> ent_coef_optimizer s = Some opt \<and> logger s = Some es \<and>
        c = fexp (snd (ent_coef_step L opt lec log_pi t_entropy) 0 0) \<and>
        s' = s\<lparr>logger := Some (es @ [Record ''train/ent_coef_loss'' (ent_coef_loss lec log_pi t_entropy)]),
               log_ent_coef := Some (snd (ent_coef_step L opt lec log_pi t_entropy) 0 0),
               ent_coef_optimizer := Some (fst (ent_coef_step L opt lec log_pi t_entropy))\<rparr>)"
  using assms
  by (cases "log_ent_coef s"; cases "target_entropy s"; cases "ent_coef_optimizer s")
     (auto simp: update_ent_coef_def bind_eq_Inr log_record_iff Let_def case_prod_beta)

lemma update_ent_coef_Coef_iff:
  assumes "ent_coef s = Coef x"
  shows "update_ent_coef L s obsv eps = Inr (c, s') \<longleftrightarrow> ent_coef_tensor s = Some c \<and> s' = s"
  using assms by (auto simp: update_ent_coef_def split: option.splits)

lemma next_q_value_iff:
  "next_q_value L s rd obsv next_obsv coef eps = Inr (target, s') \<longleftrightarrow>
     (\<exists>next_state_actions next_state_log_pi crit_next_targets r.
        get_action (actor s) next_obsv eps = Inr (next_state_actions, next_state_log_pi) \<and>
        ensemble_forward (critic_target s) next_obsv next_state_actions = Inr crit_next_targets \<and>
        calc_reward L s obsv next_state_actions (rewards rd) False = Inr (r, s') \<and>
        target = map (\<lambda>(r, d, m). fadd r (fmul (fmul (fsub (Fin 1) d) (gamma s)) m))
                   (zip (concat r)
                      (zip (concat (dones rd))
                         (concat (map2 (map2 fsub) (min_dim0 crit_next_targets)
                                    (map (map (fmul coef)) next_state_log_pi))))))"
  by (auto simp: next_q_value_def bind_eq_Inr Let_def calc_reward_iff)

lemma update_critic_iff:
  "update_critic L s rd obsv target = Inr s' \<longleftrightarrow>
     (\<exists>loss es. crit_loss (critic s) obsv (actions rd) target = Inr loss \<and> logger s = Some es \<and>
        s' = s\<lparr>logger := Some (es @ [Record ''train/critic_loss'' loss,
                                       Record ''train/train_rewards'' (fmean (concat (rewards rd)))]),
               critic := ensemble_assign (critic s)
                 (inplace (snd (critic_step L s rd obsv target)) (ensemble_parameters (critic s))),
               critic_optimizer := fst (critic_step L s rd obsv target)\<rparr>)"
  by (auto simp: update_critic_def bind_eq_Inr log_record_iff Let_def case_prod_beta critic_step_def)

lemma update_actor_iff:
  "update_actor L s obsv coef eps = Inr s' \<longleftrightarrow>
     (\<exists>loss es. actor_loss (actor s) (critic s) obsv coef eps = Inr loss \<and> logger s = Some es \<and>
        s' = s\<lparr>logger := Some (es @ [Record ''train/actor_loss'' loss]),
               actor := actor_assign (actor s)
                 (inplace (snd (actor_step L s obsv coef eps)) (actor_parameters (actor s))),
               actor_optimizer := fst (actor_step L s obsv coef eps)\<rparr>)"
  by (auto simp: update_actor_def bind_eq_Inr log_record_iff Let_def case_prod_beta actor_step_def)

lemma train_iff:
  "train L s rd e1 e2 e3 = Inr s' \<longleftrightarrow>
   (\<exists>obsv next_obsv s1 s2 coef s3 s4 target s5 s6 s7.
      log_record ''train/n_updates'' (Fin (real_of_int (n_updates s + 1)))
        (s\<lparr>n_updates := n_updates s + 1\<rparr>) = Inr s1 \<and>
      flatten_obs (observations rd) = Inr obsv \<and>
      flatten_obs (next_observations rd) = Inr next_obsv \<and>
      train_mc L s1 obsv next_obsv (actions rd) = Inr s2 \<and>
      update_ent_coef L s2 obsv e1 = Inr (coef, s3) \<and>
      log_record ''train/ent_coef'' coef s3 = Inr s4 \<and>
      next_q_value L s4 rd obsv next_obsv coef e2 = Inr (target, s5) \<and>
      update_critic L s5 rd obsv target = Inr s6 \<and>
      update_actor L s6 obsv coef e3 = Inr s7 \<and>
      s' = polyak_update L s7)"
  by (auto simp: train_def bind_eq_Inr Let_def)

lemma mc_losses_total:
  assumes "\<And>m x a. \<exists>d. mc_forward L m x a = Inr d" and "\<And>d v. \<exists>l. dist_log_prob L d v = Inr l"
  shows "\<exists>fw w loss. mc_losses L m x nx a = Inr (fw, w, loss)"
proof -
  obtain fwd wld where 1: "mc_forward L m x a = Inr (fwd, wld)"
    using assms(1)[of m x a] by (cases "mc_forward L m x a") auto
  obtain lf where 2: "dist_log_prob L fwd nx = Inr lf" using assms(2) by blast
  obtain lw where 3: "dist_log_prob L wld nx = Inr lw" using assms(2) by blast
  show ?thesis by (simp add: mc_losses_def bind_def 1 2 3 Let_def)
qed

lemma ensemble_assign_Nil_iff [simp]: "ensemble_assign cs ps = [] \<longleftrightarrow> cs = []"
  by (cases cs) simp_all


lemma train_mc_runs:
  assumes "logger s = Some es"
    and "mc_losses L (mc_network s) obsv next_obsv acts = Inr (fw, w, loss)"
  shows "\<exists>m opt. train_mc L s obsv next_obsv acts =
           Inr (s\<lparr>logger := Some (es @ [Record ''mc/fw_loss'' (fmean (concat fw)),
                                          Record ''mc/w_prime_a_loss'' (fmean (concat w)),
                                          Record ''mc/loss'' loss]),
                  mc_network := m, mc_optimizer := opt\<rparr>)"
  using assms by (simp add: train_mc_iff) (intro exI, rule refl)

lemma update_ent_coef_runs:
  assumes "logger s = Some es"
    and "case ent_coef s of
           Auto \<Rightarrow> log_ent_coef s \<noteq> None \<and> target_entropy s \<noteq> None \<and> ent_coef_optimizer s \<noteq> None \<and>
                   (\<exists>r. get_action (actor s) obsv e = Inr r)
         | Coef x \<Rightarrow> ent_coef_tensor s \<noteq> None"
  shows "\<exists>coef v lec opt. update_ent_coef L s obsv e =
           Inr (coef, s\<lparr>logger := Some (es @ (case ent_coef s of
                                                  Auto \<Rightarrow> [Record ''train/ent_coef_loss'' v]
                                                | Coef x \<Rightarrow> [])),
                         log_ent_coef := lec, ent_coef_optimizer := opt\<rparr>)"
proof (cases "ent_coef s")
  case Auto
  with assms(2) obtain lec t_entropy opt a log_pi where
    "log_ent_coef s = Some lec" "target_entropy s = Some t_entropy" "ent_coef_optimizer s = Some opt"
    "get_action (actor s) obsv e = Inr (a, log_pi)"
    by auto
  then show ?thesis
    using Auto assms(1) by (auto simp: update_ent_coef_Auto_iff)
next
  case (Coef x)
  with assms(2) obtain c where c: "ent_coef_tensor s = Some c" by auto
  have "update_ent_coef L s obsv e = Inr (c, s)"
    using c Coef by (simp add: update_ent_coef_Coef_iff)
  moreover have "s = s\<lparr>logger := Some (es @ (case ent_coef s of
                                                  Auto \<Rightarrow> [Record ''train/ent_coef_loss'' NaN]
                                                | Coef x \<Rightarrow> [])),
      log_ent_coef := log_ent_coef s, ent_coef_optimizer := ent_coef_optimizer s\<rparr>"
    using assms(1) Coef by simp
  ultimately show ?thesis by metis
qed

lemma next_q_value_runs:
  assumes "logger s = Some es"
    and "get_action (actor s) next_obsv e = Inr r"
    and "critic_target s \<noteq> []"
    and "\<And>m x a. \<exists>d. mc_forward L m x a = Inr d"
    and "map_of (mc s) ''reward_eta'' = Some eta"
  shows "\<exists>target v1 v2 v3 v4. next_q_value L s rd obsv next_obsv coef e =
           Inr (target, s\<lparr>logger := Some (es @ [Record_mean ''mc/i_reward'' v1,
              Record_mean ''mc/e_reward'' v2, Record_mean ''mc/kld'' v3, Record_mean ''mc/reward'' v4])\<rparr>)"
proof -
  obtain acts lp where g: "get_action (actor s) next_obsv e = Inr (acts, lp)"
    using assms(2) by (cases r) auto
  obtain fwd wld where f: "mc_forward L (mc_network s) obsv acts = Inr (fwd, wld)"
    using assms(4)[of "mc_network s" obsv acts] by (cases "mc_forward L (mc_network s) obsv acts") auto
  show ?thesis
    using assms(1,3,5) g f
    by (simp add: next_q_value_iff calc_reward_iff ensemble_forward_def) (intro exI, rule refl)
qed

lemma update_critic_runs:
  assumes "logger s = Some es" and "critic s \<noteq> []"
  shows "\<exists>v c opt. update_critic L s rd obsv target =
           Inr (s\<lparr>logger := Some (es @ [Record ''train/critic_loss'' v,
                      Record ''train/train_rewards'' (fmean (concat (rewards rd)))]),
                  critic := c, critic_optimizer := opt\<rparr>) \<and> c \<noteq> []"
  using assms
  by (simp add: update_critic_iff crit_loss_def ensemble_forward_def bind_def)
     (intro exI conjI, rule refl, simp)

lemma update_actor_runs:
  assumes "logger s = Some es" and "get_action (actor s) obsv e = Inr r" and "critic s \<noteq> []"
  shows "\<exists>v a opt. update_actor L s obsv coef e =
           Inr (s\<lparr>logger := Some (es @ [Record ''train/actor_loss'' v]),
                  actor := a, actor_optimizer := opt\<rparr>)"
proof -
  obtain acts lp where g: "get_action (actor s) obsv e = Inr (acts, lp)"
    using assms(2) by (cases r) auto
  show ?thesis
    using assms(1,3) g
    by (simp add: update_actor_iff actor_loss_def ensemble_forward_def bind_def)
       (intro exI, rule refl)
qed


lemma train_runs:
  assumes lg: "logger s = Some es"
    and fo: "flatten_obs (observations rd) = Inr obsv"
    and fn: "flatten_obs (next_observations rd) = Inr next_obsv"
    and mcf: "\<And>m x a. \<exists>d. mc_forward L m x a = Inr d"
    and dlp: "\<And>d v. \<exists>l. dist_log_prob L d v = Inr l"
    and eta: "map_of (mc s) ''reward_eta'' = Some eta"
    and ent: "case ent_coef s of
           Auto \<Rightarrow> log_ent_coef s \<noteq> None \<and> target_entropy s \<noteq> None \<and> ent_coef_optimizer s \<noteq> None \<and>
                   (\<exists>r. get_action (actor s) obsv e1 = Inr r)
         | Coef x \<Rightarrow> ent_coef_tensor s \<noteq> None"
    and ga2: "get_action (actor s) next_obsv e2 = Inr r2"
    and ga3: "get_action (actor s) obsv e3 = Inr r3"
    and cr: "critic s \<noteq> []" "critic_target s \<noteq> []"
  shows "\<exists>s'. train L s rd e1 e2 e3 = Inr s' \<and>
           map entry_key (entries s') =
             map entry_key es @
             [''train/n_updates'', ''mc/fw_loss'', ''mc/w_prime_a_loss'', ''mc/loss''] @
             (case ent_coef s of Auto \<Rightarrow> [''train/ent_coef_loss''] | Coef x \<Rightarrow> []) @
             [''train/ent_coef'', ''mc/i_reward'', ''mc/e_reward'', ''mc/kld'', ''mc/reward'',
              ''train/critic_loss'', ''train/train_rewards'', ''train/actor_loss'']"
proof -
  define s1 where "s1 = s\<lparr>n_updates := n_updates s + 1,
     logger := Some (es @ [Record ''train/n_updates'' (Fin (real_of_int (n_updates s + 1)))])\<rparr>"
  have 1: "log_record ''train/n_updates'' (Fin (real_of_int (n_updates s + 1)))
        (s\<lparr>n_updates := n_updates s + 1\<rparr>) = Inr s1"
    by (simp add: log_record_iff lg s1_def)
  obtain fw w loss where ml: "mc_losses L (mc_network s1) obsv next_obsv (actions rd) = Inr (fw, w, loss)"
    using mc_losses_total[OF mcf dlp] by blast
  have lg1: "logger s1 = Some (es @ [Record ''train/n_updates'' (Fin (real_of_int (n_updates s + 1)))])"
    by (simp add: s1_def)
  from train_mc_runs[OF lg1 ml] obtain m mopt s2 where
    2: "train_mc L s1 obsv next_obsv (actions rd) = Inr s2"
    and s2: "s2 = s1\<lparr>logger := Some ((es @ [Record ''train/n_updates'' (Fin (real_of_int (n_updates s + 1)))]) @
                 [Record ''mc/fw_loss'' (fmean (concat fw)),
                  Record ''mc/w_prime_a_loss'' (fmean (concat w)), Record ''mc/loss'' loss]),
             mc_network := m, mc_optimizer := mopt\<rparr>"
    by blast
  have lg2: "logger s2 = Some ((es @ [Record ''train/n_updates'' (Fin (real_of_int (n_updates s + 1)))]) @
                 [Record ''mc/fw_loss'' (fmean (concat fw)),
                  Record ''mc/w_prime_a_loss'' (fmean (concat w)), Record ''mc/loss'' loss])"
    by (simp add: s2)
  have ent2: "case ent_coef s2 of
           Auto \<Rightarrow> log_ent_coef s2 \<noteq> None \<and> target_entropy s2 \<noteq> None \<and> ent_coef_optimizer s2 \<noteq> None \<and>
                   (\<exists>r. get_action (actor s2) obsv e1 = Inr r)
         | Coef x \<Rightarrow> ent_coef_tensor s2 \<noteq> None"
    using ent by (auto simp: s2 s1_def split: ent_coef.splits)
  from update_ent_coef_runs[OF lg2 ent2] obtain coef v lec eopt s3 where
    3: "update_ent_coef L s2 obsv e1 = Inr (coef, s3)"
    and s3: "s3 = s2\<lparr>logger := Some (((es @ [Record ''train/n_updates'' (Fin (real_of_int (n_updates s + 1)))]) @
                 [Record ''mc/fw_loss'' (fmean (concat fw)),
                  Record ''mc/w_prime_a_loss'' (fmean (concat w)), Record ''mc/loss'' loss]) @
                 (case ent_coef s2 of Auto \<Rightarrow> [Record ''train/ent_coef_loss'' v] | Coef x \<Rightarrow> [])),
              log_ent_coef := lec, ent_coef_optimizer := eopt\<rparr>"
    by blast
  define es3 where "es3 = ((es @ [Record ''train/n_updates'' (Fin (real_of_int (n_updates s + 1)))]) @
                 [Record ''mc/fw_loss'' (fmean (concat fw)),
                  Record ''mc/w_prime_a_loss'' (fmean (concat w)), Record ''mc/loss'' loss]) @
                 (case ent_coef s2 of Auto \<Rightarrow> [Record ''train/ent_coef_loss'' v] | Coef x \<Rightarrow> [])"
  have lg3: "logger s3 = Some es3" by (simp add: s3 es3_def)
  define s4 where "s4 = s3\<lparr>logger := Some (es3 @ [Record ''train/ent_coef'' coef])\<rparr>"
  have 4: "log_record ''train/ent_coef'' coef s3 = Inr s4"
    by (simp add: log_record_iff lg3 s4_def)
  have lg4: "logger s4 = Some (es3 @ [Record ''train/ent_coef'' coef])" by (simp add: s4_def)
  have a4: "actor s4 = actor s" "critic_target s4 = critic_target s" "mc s4 = mc s"
    "critic s4 = critic s"
    by (simp_all add: s4_def s3 s2 s1_def)
  from next_q_value_runs[OF lg4, of next_obsv e2 r2 L eta rd obsv coef] ga2 cr(2) mcf eta a4
  obtain target v1 v2 v3 v4 s5 where
    5: "next_q_value L s4 rd obsv next_obsv coef e2 = Inr (target, s5)"
    and s5: "s5 = s4\<lparr>logger := Some ((es3 @ [Record ''train/ent_coef'' coef]) @
              [Record_mean ''mc/i_reward'' v1,
              Record_mean ''mc/e_reward'' v2, Record_mean ''mc/kld'' v3, Record_mean ''mc/reward'' v4])\<rparr>"
    by auto
  define es5 where "es5 = (es3 @ [Record ''train/ent_coef'' coef]) @
              [Record_mean ''mc/i_reward'' v1,
              Record_mean ''mc/e_reward'' v2, Record_mean ''mc/kld'' v3, Record_mean ''mc/reward'' v4]"
  have lg5: "logger s5 = Some es5" by (simp add: s5 es5_def)
  have c5: "critic s5 \<noteq> []" using cr(1) a4 by (simp add: s5)
  from update_critic_runs[OF lg5 c5] obtain v5 c copt s6 where
    6: "update_critic L s5 rd obsv target = Inr s6"
    and s6: "s6 = s5\<lparr>logger := Some (es5 @ [Record ''train/critic_loss'' v5,
                      Record ''train/train_rewards'' (fmean (concat (rewards rd)))]),
                  critic := c, critic_optimizer := copt\<rparr>"
    and c: "c \<noteq> []"
    by blast
  have lg6: "logger s6 = Some (es5 @ [Record ''train/critic_loss'' v5,
                      Record ''train/train_rewards'' (fmean (concat (rewards rd)))])"
    by (simp add: s6)
  have a6: "get_action (actor s6) obsv e3 = Inr r3" "critic s6 \<noteq> []"
    using ga3 c a4 by (simp_all add: s6 s5)
  from update_actor_runs[OF lg6 a6] obtain v7 a aopt s7 where
    7: "update_actor L s6 obsv coef e3 = Inr s7"
    and s7: "s7 = s6\<lparr>logger := Some ((es5 @ [Record ''train/critic_loss'' v5,
                      Record ''train/train_rewards'' (fmean (concat (rewards rd)))]) @
                      [Record ''train/actor_loss'' v7]),
                  actor := a, actor_optimizer := aopt\<rparr>"
    by blast
  have "train L s rd e1 e2 e3 = Inr (polyak_update L s7)"
    unfolding train_iff using 1 fo fn 2 3 4 5 6 7 by blast
  moreover have "ent_coef s2 = ent_coef s" by (simp add: s2 s1_def)
  then have "map entry_key (entries (polyak_update L s7)) =
             map entry_key es @
             [''train/n_updates'', ''mc/fw_loss'', ''mc/w_prime_a_loss'', ''mc/loss''] @
             (case ent_coef s of Auto \<Rightarrow> [''train/ent_coef_loss''] | Coef x \<Rightarrow> []) @
             [''train/ent_coef'', ''mc/i_reward'', ''mc/e_reward'', ''mc/kld'', ''mc/reward'',
              ''train/critic_loss'', ''train/train_rewards'', ''train/actor_loss'']"
    by (simp add: polyak_update_def entries_def s7 es5_def es3_def split: ent_coef.splits)
  ultimately show ?thesis by blast
qed

section \<open>The Polyak update\<close>

lemma fmul_commute: "fmul a b = fmul b a"
  by (cases a; cases b) (simp_all add: mult.commute)

lemma length_overwrite [simp]: "length (overwrite old new) = length old"
  by (simp add: overwrite_def)

lemma linear_parameters_assign:
  "length ps = 2 \<Longrightarrow> linear_parameters (linear_assign l ps) = ps"
proof -
  assume "length ps = 2"
  then obtain a b where "ps = [a, b]"
    by (cases ps; cases "tl ps") auto
  then show ?thesis by (simp add: linear_parameters_def linear_assign_def overwrite_def)
qed

lemma length_8_conv:
  "length ps = 8 \<Longrightarrow> \<exists>a b c d e f g h. ps = [a, b, c, d, e, f, g, h]"
  by (auto simp: numeral_eq_Suc length_Suc_conv)

lemma critic_parameters_assign:
  "length ps = 8 \<Longrightarrow> critic_parameters (critic_assign c ps) = ps"
proof -
  assume "length ps = 8"
  then obtain a b c' d e f g h where ps: "ps = [a, b, c', d, e, f, g, h]"
    using length_8_conv by blast
  obtain f1 f2 f3 f4 where c: "c = Critic f1 f2 f3 f4" by (cases c)
  show ?thesis
    by (simp add: c ps overwrite_def linear_parameters_def linear_assign_def)
qed

lemma length_ensemble_parameters [simp]: "length (ensemble_parameters cs) = 8 * length cs"
  by (induction cs) (simp_all add: ensemble_parameters_def)

lemma length_ensemble_assign [simp]: "length (ensemble_assign cs ps) = length cs"
  by (induction cs arbitrary: ps) simp_all

lemma ensemble_parameters_assign:
  "length ps = 8 * length cs \<Longrightarrow> ensemble_parameters (ensemble_assign cs ps) = ps"
proof (induction cs arbitrary: ps)
  case Nil
  then show ?case by (simp add: ensemble_parameters_def)
next
  case (Cons c cs)
  from Cons.prems have 1: "length (take 8 ps) = 8" and 2: "length (drop 8 ps) = 8 * length cs"
    by simp_all
  have "ensemble_parameters (ensemble_assign (c # cs) ps) =
      critic_parameters (critic_assign c (take 8 ps)) @ ensemble_parameters (ensemble_assign cs (drop 8 ps))"
    by (simp add: ensemble_parameters_def)
  also have "\<dots> = take 8 ps @ drop 8 ps"
    by (simp only: critic_parameters_assign[OF 1] Cons.IH[OF 2])
  finally show ?case by simp
qed

lemma length_inplace [simp]: "length (inplace f ps) = length ps"
  by (simp add: inplace_def)

lemma map_length_inplace [simp]: "map length (inplace f ps) = map length ps"
  by (auto simp: inplace_def intro!: nth_equalityI simp: nth_enumerate_eq)


lemma length_nth_inplace [simp]: "i < length ps \<Longrightarrow> length (inplace f ps ! i) = length (ps ! i)"
  by (simp add: inplace_def nth_enumerate_eq)

lemma train_frame:
  assumes "train L s rd e1 e2 e3 = Inr s'"
  obtains s7 s5 obsv target where "s' = polyak_update L s7" and "critic_target s7 = critic_target s"
    and "tau s7 = tau s" and "critic s5 = critic s"
    and "critic s7 = ensemble_assign (critic s)
           (inplace (snd (critic_step L s5 rd obsv target)) (ensemble_parameters (critic s)))"
proof -
  from assms obtain obsv next_obsv s1 s2 coef s3 s4 target s5 s6 s7 where
    1: "log_record ''train/n_updates'' (Fin (real_of_int (n_updates s + 1)))
        (s\<lparr>n_updates := n_updates s + 1\<rparr>) = Inr s1"
    and 2: "train_mc L s1 obsv next_obsv (actions rd) = Inr s2"
    and 3: "update_ent_coef L s2 obsv e1 = Inr (coef, s3)"
    and 4: "log_record ''train/ent_coef'' coef s3 = Inr s4"
    and 5: "next_q_value L s4 rd obsv next_obsv coef e2 = Inr (target, s5)"
    and 6: "update_critic L s5 rd obsv target = Inr s6"
    and 7: "update_actor L s6 obsv coef e3 = Inr s7"
    and 8: "s' = polyak_update L s7"
    unfolding train_iff by blast
  have a1: "critic_target s1 = critic_target s" "tau s1 = tau s" "critic s1 = critic s"
    using 1 by (auto simp: log_record_iff)
  have a2: "critic_target s2 = critic_target s1" "tau s2 = tau s1" "critic s2 = critic s1"
    using 2 by (auto simp: train_mc_iff)
  have a3: "critic_target s3 = critic_target s2" "tau s3 = tau s2" "critic s3 = critic s2"
    using 3 by (cases "ent_coef s2"; auto simp: update_ent_coef_Auto_iff update_ent_coef_Coef_iff)+
  have a4: "critic_target s4 = critic_target s3" "tau s4 = tau s3" "critic s4 = critic s3"
    using 4 by (auto simp: log_record_iff)
  have a5: "critic_target s5 = critic_target s4" "tau s5 = tau s4" "critic s5 = critic s4"
    using 5 by (auto simp: next_q_value_iff calc_reward_iff)
  have a6: "critic_target s6 = critic_target s5" "tau s6 = tau s5"
    "critic s6 = ensemble_assign (critic s5)
       (inplace (snd (critic_step L s5 rd obsv target)) (ensemble_parameters (critic s5)))"
    using 6 by (auto simp: update_critic_iff)
  have a7: "critic_target s7 = critic_target s6" "tau s7 = tau s6" "critic s7 = critic s6"
    using 7 by (auto simp: update_actor_iff)
  show thesis
    by (rule that[of s7 s5 obsv target])
       (simp_all add: 8 a1 a2 a3 a4 a5 a6 a7)
qed

lemma nth_polyak:
  "j < length p \<Longrightarrow> j < length q \<Longrightarrow>
   polyak fused t p q ! j =
     add_alpha (fused j) (mul32 (q ! j) (rnd32 (rnd64 (fsub (Fin 1) t)))) (p ! j) (rnd32 t)"
  by (simp add: polyak_def nth_enumerate_eq)

lemma length_polyak [simp]: "length (polyak fused t p q) = min (length p) (length q)"
  by (simp add: polyak_def)

lemma train_target_parameters:
  assumes "train L s rd e1 e2 e3 = Inr s'"
    and "map length (ensemble_parameters (critic_target s)) = map length (ensemble_parameters (critic s))"
  shows "map length (ensemble_parameters (critic_target s')) =
           map length (ensemble_parameters (critic_target s)) \<and>
         (\<forall>i < length (ensemble_parameters (critic_target s)).
            \<forall>j < length (ensemble_parameters (critic_target s) ! i).
              ensemble_parameters (critic_target s') ! i ! j =
                add_alpha (fused_add L i j)
                  (mul32 (ensemble_parameters (critic_target s) ! i ! j)
                     (rnd32 (rnd64 (fsub (Fin 1) (tau s)))))
                  (ensemble_parameters (critic s') ! i ! j) (rnd32 (tau s)))"
proof -
  from assms(1) obtain s7 f where s': "s' = polyak_update L s7"
    and t: "critic_target s7 = critic_target s" "tau s7 = tau s"
    and c: "critic s7 = ensemble_assign (critic s) (inplace f (ensemble_parameters (critic s)))"
    by (rule train_frame) blast
  let ?P = "ensemble_parameters (critic s)" and ?T = "ensemble_parameters (critic_target s)"
  have n: "length (critic_target s) = length (critic s)"
    using arg_cong[OF assms(2), of length] by simp
  have pc: "ensemble_parameters (critic s7) = inplace f ?P"
    unfolding c by (rule ensemble_parameters_assign) simp
  have cs': "critic s' = critic s7" by (simp add: s' polyak_update_def)
  have pt: "ensemble_parameters (critic_target s') =
      map (\<lambda>(i, p, q). polyak (fused_add L i) (tau s) p q) (enumerate 0 (zip (inplace f ?P) ?T))"
    unfolding s' polyak_update_def by (simp add: t pc ensemble_parameters_assign n)
  have len: "length ?T = length ?P" using n by simp
  have lens: "length (inplace f ?P ! i) = length (?T ! i)" if "i < length ?T" for i
  proof -
    have "map length ?T ! i = map length ?P ! i" by (simp only: assms(2))
    then show ?thesis using that len by simp
  qed
  have 1: "map length (ensemble_parameters (critic_target s')) = map length ?T"
    unfolding pt using len lens
    by (auto intro!: nth_equalityI simp: nth_enumerate_eq)
  have 2: "ensemble_parameters (critic_target s') ! i ! j =
                add_alpha (fused_add L i j) (mul32 (?T ! i ! j) (rnd32 (rnd64 (fsub (Fin 1) (tau s)))))
                  (ensemble_parameters (critic s') ! i ! j) (rnd32 (tau s))"
    if "i < length ?T" "j < length (?T ! i)" for i j
    using that len lens[OF that(1)] by (simp add: pt cs' pc nth_polyak nth_enumerate_eq)
  from 1 2 show ?thesis by blast
qed

text \<open>
  C4 (amended). When a training step returns, every element of every parameter of the
  target critics is the float32 result of the two operations of the update:
  \<open>p_target_old * (1 - tau)\<close>, rounded, then \<open>+ tau * p_source\<close>, where the product and the
  sum are rounded one after the other or at once, as the kernel does; \<open>p_source\<close> is the
  same element of the critics after their optimizer step, \<open>1 - tau\<close> is rounded as a Python
  float and both scalars are taken as float32. The parameters keep their shapes. Nothing
  else in the step writes the target critics: no optimizer is given their parameters. The
  critics and their targets have parameters of the same shapes, as the constructor builds
  them.
\<close>

theorem train_polyak:
  assumes "train L s rd e1 e2 e3 = Inr s'"
    and "map length (ensemble_parameters (critic_target s)) = map length (ensemble_parameters (critic s))"
  shows "map length (ensemble_parameters (critic_target s')) =
           map length (ensemble_parameters (critic_target s)) \<and>
         (\<forall>i < length (ensemble_parameters (critic_target s)).
            \<forall>j < length (ensemble_parameters (critic_target s) ! i).
              ensemble_parameters (critic_target s') ! i ! j =
                add_alpha (fused_add L i j)
                  (mul32 (ensemble_parameters (critic_target s) ! i ! j)
                     (rnd32 (rnd64 (fsub (Fin 1) (tau s)))))
                  (ensemble_parameters (critic s') ! i ! j) (rnd32 (tau s)))"
  using assms by (rule train_target_parameters)

lemma get_action_engine1:
  "\<exists>lp. get_action (actor engine1) [[Fin 0]] no_noise = Inr ([[Fin 0]], lp)"
  "\<exists>lp. get_action (actor engine1) [[Fin 2]] no_noise = Inr ([[Fin 0]], lp)"
  by (simp_all add: get_action_def engine_defs forward_def linear_apply_def relu_def fmax_def fmin_def
    clamp_def LOG_STD_MIN_def LOG_STD_MAX_def fsum_def Normal_def bind_def rsample_def no_noise_def
    log_prob_def Let_def exp32_def tanh32_def add32_def mul32_def)

lemma train_engine1_runs:
  "\<exists>s'. train lib1 engine1 batch1 no_noise no_noise no_noise = Inr s' \<and>
     map entry_key (entries s') =
       [''train/n_updates'', ''mc/fw_loss'', ''mc/w_prime_a_loss'', ''mc/loss'',
        ''train/ent_coef_loss'', ''train/ent_coef'', ''mc/i_reward'', ''mc/e_reward'', ''mc/kld'',
        ''mc/reward'', ''train/critic_loss'', ''train/train_rewards'', ''train/actor_loss'']"
proof -
  obtain lp0 lp2 where g0: "get_action (actor engine1) [[Fin 0]] no_noise = Inr ([[Fin 0]], lp0)"
    and g2: "get_action (actor engine1) [[Fin 2]] no_noise = Inr ([[Fin 0]], lp2)"
    using get_action_engine1 by blast
  have "\<exists>s'. train lib1 engine1 batch1 no_noise no_noise no_noise = Inr s' \<and>
           map entry_key (entries s') =
             map entry_key [] @
             [''train/n_updates'', ''mc/fw_loss'', ''mc/w_prime_a_loss'', ''mc/loss''] @
             (case ent_coef engine1 of Auto \<Rightarrow> [''train/ent_coef_loss''] | Coef x \<Rightarrow> []) @
             [''train/ent_coef'', ''mc/i_reward'', ''mc/e_reward'', ''mc/kld'', ''mc/reward'',
              ''train/critic_loss'', ''train/train_rewards'', ''train/actor_loss'']"
  proof (rule train_runs)
    show "logger engine1 = Some []" by (simp add: engine_defs)
    show "flatten_obs (observations batch1) = Inr [[Fin 0]]"
      by (simp add: flatten_obs_def batch1_def)
    show "flatten_obs (next_observations batch1) = Inr [[Fin 2]]"
      by (simp add: flatten_obs_def batch1_def)
    show "\<exists>d. mc_forward lib1 m x a = Inr d" for m x a by (simp add: lib1_simps)
    show "\<exists>l. dist_log_prob lib1 d v = Inr l" for d v by (simp add: lib1_simps)
    show "map_of (mc engine1) ''reward_eta'' = Some (Fin (1 / 2))" by (simp add: engine_defs)
    show "case ent_coef engine1 of
           Auto \<Rightarrow> log_ent_coef engine1 \<noteq> None \<and> target_entropy engine1 \<noteq> None \<and>
                   ent_coef_optimizer engine1 \<noteq> None \<and>
                   (\<exists>r. get_action (actor engine1) [[Fin 0]] no_noise = Inr r)
         | Coef x \<Rightarrow> ent_coef_tensor engine1 \<noteq> None"
      using g0 by (simp add: engine_defs)
    show "get_action (actor engine1) [[Fin 2]] no_noise = Inr ([[Fin 0]], lp2)" by (rule g2)
    show "get_action (actor engine1) [[Fin 0]] no_noise = Inr ([[Fin 0]], lp0)" by (rule g0)
    show "critic engine1 \<noteq> []" "critic_target engine1 \<noteq> []" by (simp_all add: engine_defs)
  qed
  then show ?thesis by (simp add: engine_defs)
qed

lemma train_lib1_critic:
  assumes "train lib1 s rd e1 e2 e3 = Inr s'"
  shows "ensemble_parameters (critic s') =
           inplace (\<lambda>i j. fadd (ensemble_parameters (critic s) ! i ! j) (Fin 1))
             (ensemble_parameters (critic s))"
proof -
  from assms obtain s7 s5 obsv target where "s' = polyak_update lib1 s7" and "critic s5 = critic s"
    and "critic s7 = ensemble_assign (critic s)
           (inplace (snd (critic_step lib1 s5 rd obsv target)) (ensemble_parameters (critic s)))"
    by (rule train_frame)
  then show ?thesis
    by (simp add: polyak_update_def ensemble_parameters_assign critic_step_def lib1_simps)
qed

theorem train_polyak_witness:
  "\<exists>s'. train lib1 engine1 batch1 no_noise no_noise no_noise = Inr s' \<and>
     ensemble_parameters (critic_target engine1) ! 0 ! 0 = Fin 0 \<and>
     ensemble_parameters (critic s') ! 0 ! 0 = Fin 1 \<and> tau engine1 = Fin (1 / 2) \<and>
     ensemble_parameters (critic_target s') ! 0 ! 0 = Fin (1 / 2)"
proof -
  obtain s' where t: "train lib1 engine1 batch1 no_noise no_noise no_noise = Inr s'"
    using train_engine1_runs by blast
  have sh: "map length (ensemble_parameters (critic_target engine1)) =
      map length (ensemble_parameters (critic engine1))"
    by (simp add: engine_defs)
  have c: "ensemble_parameters (critic s') ! 0 ! 0 = Fin 1"
    unfolding train_lib1_critic[OF t]
    by (simp add: engine_defs ensemble_parameters_def linear_parameters_def inplace_def)
  have p: "ensemble_parameters (critic_target engine1) ! 0 ! 0 = Fin 0" "tau engine1 = Fin (1 / 2)"
    by (simp_all add: engine_defs ensemble_parameters_def linear_parameters_def)
  from train_polyak[OF t sh] have
    "ensemble_parameters (critic_target s') ! 0 ! 0 =
       add_alpha (fused_add lib1 0 0)
         (mul32 (ensemble_parameters (critic_target engine1) ! 0 ! 0)
            (rnd32 (rnd64 (fsub (Fin 1) (tau engine1)))))
         (ensemble_parameters (critic s') ! 0 ! 0) (rnd32 (tau engine1))"
    by (simp add: engine_defs ensemble_parameters_def linear_parameters_def)
  then have "ensemble_parameters (critic_target s') ! 0 ! 0 = Fin (1 / 2)"
    by (simp add: c p fsub_def lib1_simps add_alpha_def mul32_def add32_def)
  with t c p show ?thesis by blast
qed

text \<open>
  The value is not exactly \<open>(1 - tau) * p_target_old + tau * p_source\<close>: with the default
  \<open>tau = 0.005\<close>, a target weight 10 and a critic weight that the optimizer step moves to
  11, the new target weight is \<open>10491003 / 1048576\<close>, with either kernel, and not
  \<open>2001 / 200\<close>, which is not a float32 number.
\<close>

lemma polyak_default:
  "add_alpha False (mul32 (Fin 10) (rnd32 (rnd64 (fsub (Fin 1) (Fin (5 / 10 ^ 3)))))) (Fin 11)
     (rnd32 (Fin (5 / 10 ^ 3))) = Fin (10491003 / 1048576)"
  "add_alpha True (mul32 (Fin 10) (rnd32 (rnd64 (fsub (Fin 1) (Fin (5 / 10 ^ 3)))))) (Fin 11)
     (rnd32 (Fin (5 / 10 ^ 3))) = Fin (10491003 / 1048576)"
proof -
  have 1: "rnd64 (fsub (Fin 1) (Fin (5 / 10 ^ 3))) = Fin (8962163258467287 / 9007199254740992)"
    by (simp add: fsub_def, subst round64_eq[where e = "- 1"]; simp add: round_even_def Let_def)
  have 2: "rnd32 (Fin (8962163258467287 / 9007199254740992)) = Fin (8346665 / 8388608)"
    by (simp, subst round32_eq[where e = "- 1"]; simp add: round_even_def Let_def)
  have 3: "mul32 (Fin 10) (Fin (8346665 / 8388608)) = Fin (10433331 / 1048576)"
    by (simp add: mul32_def, subst round32_eq[where e = 3]; simp add: round_even_def Let_def)
  have 4: "rnd32 (Fin (5 / 10 ^ 3)) = Fin (5368709 / 1073741824)"
    by (simp, subst round32_eq[where e = "- 8"]; simp add: round_even_def Let_def)
  have 5: "mul32 (Fin (5368709 / 1073741824)) (Fin 11) = Fin (7381975 / 134217728)"
    by (simp add: mul32_def, subst round32_eq[where e = "- 5"]; simp add: round_even_def Let_def)
  have 6: "add32 (Fin (10433331 / 1048576)) (Fin (7381975 / 134217728)) = Fin (10491003 / 1048576)"
    by (simp add: add32_def, subst round32_eq[where e = 3]; simp add: round_even_def Let_def)
  have 7: "rnd32 (fadd (Fin (10433331 / 1048576)) (fmul (Fin (5368709 / 1073741824)) (Fin 11))) =
      Fin (10491003 / 1048576)"
    by (simp, subst round32_eq[where e = 3]; simp add: round_even_def Let_def)
  show "add_alpha False (mul32 (Fin 10) (rnd32 (rnd64 (fsub (Fin 1) (Fin (5 / 10 ^ 3)))))) (Fin 11)
     (rnd32 (Fin (5 / 10 ^ 3))) = Fin (10491003 / 1048576)"
    unfolding 1 2 3 4 add_alpha_def by (simp only: 5 6 if_False)
  show "add_alpha True (mul32 (Fin 10) (rnd32 (rnd64 (fsub (Fin 1) (Fin (5 / 10 ^ 3)))))) (Fin 11)
     (rnd32 (Fin (5 / 10 ^ 3))) = Fin (10491003 / 1048576)"
    unfolding 1 2 3 4 add_alpha_def by (simp only: 7 if_True)
qed

lemma train_engine3_runs:
  "\<exists>s'. train lib1 engine3 batch1 no_noise no_noise no_noise = Inr s'"
proof -
  obtain lp0 lp2 where g0: "get_action (actor engine1) [[Fin 0]] no_noise = Inr ([[Fin 0]], lp0)"
    and g2: "get_action (actor engine1) [[Fin 2]] no_noise = Inr ([[Fin 0]], lp2)"
    using get_action_engine1 by blast
  have a: "actor engine3 = actor engine1" by (simp add: engine3_def)
  have "\<exists>s'. train lib1 engine3 batch1 no_noise no_noise no_noise = Inr s' \<and>
           map entry_key (entries s') =
             map entry_key [] @
             [''train/n_updates'', ''mc/fw_loss'', ''mc/w_prime_a_loss'', ''mc/loss''] @
             (case ent_coef engine3 of Auto \<Rightarrow> [''train/ent_coef_loss''] | Coef x \<Rightarrow> []) @
             [''train/ent_coef'', ''mc/i_reward'', ''mc/e_reward'', ''mc/kld'', ''mc/reward'',
              ''train/critic_loss'', ''train/train_rewards'', ''train/actor_loss'']"
  proof (rule train_runs)
    show "logger engine3 = Some []" by (simp add: engine3_def engine_defs)
    show "flatten_obs (observations batch1) = Inr [[Fin 0]]"
      by (simp add: flatten_obs_def batch1_def)
    show "flatten_obs (next_observations batch1) = Inr [[Fin 2]]"
      by (simp add: flatten_obs_def batch1_def)
    show "\<exists>d. mc_forward lib1 m x a = Inr d" for m x a by (simp add: lib1_simps)
    show "\<exists>l. dist_log_prob lib1 d v = Inr l" for d v by (simp add: lib1_simps)
    show "map_of (mc engine3) ''reward_eta'' = Some (Fin (1 / 2))" by (simp add: engine3_def engine_defs)
    show "case ent_coef engine3 of
           Auto \<Rightarrow> log_ent_coef engine3 \<noteq> None \<and> target_entropy engine3 \<noteq> None \<and>
                   ent_coef_optimizer engine3 \<noteq> None \<and>
                   (\<exists>r. get_action (actor engine3) [[Fin 0]] no_noise = Inr r)
         | Coef x \<Rightarrow> ent_coef_tensor engine3 \<noteq> None"
      using g0 unfolding a by (simp add: engine3_def engine_defs)
    show "get_action (actor engine3) [[Fin 2]] no_noise = Inr ([[Fin 0]], lp2)" unfolding a by (rule g2)
    show "get_action (actor engine3) [[Fin 0]] no_noise = Inr ([[Fin 0]], lp0)" unfolding a by (rule g0)
    show "critic engine3 \<noteq> []" "critic_target engine3 \<noteq> []" by (simp_all add: engine3_def)
  qed
  then show ?thesis by blast
qed

theorem train_polyak_inexact:
  "\<exists>s'. train lib1 engine3 batch1 no_noise no_noise no_noise = Inr s' \<and>
     tau engine3 = Fin (5 / 10 ^ 3) \<and>
     ensemble_parameters (critic_target engine3) ! 0 ! 0 = Fin 10 \<and>
     ensemble_parameters (critic s') ! 0 ! 0 = Fin 11 \<and>
     ensemble_parameters (critic_target s') ! 0 ! 0 = Fin (10491003 / 1048576) \<and>
     ensemble_parameters (critic_target s') ! 0 ! 0 \<noteq>
       fadd (fmul (fsub (Fin 1) (tau engine3)) (ensemble_parameters (critic_target engine3) ! 0 ! 0))
            (fmul (tau engine3) (ensemble_parameters (critic s') ! 0 ! 0))"
proof -
  obtain s' where t: "train lib1 engine3 batch1 no_noise no_noise no_noise = Inr s'"
    using train_engine3_runs by blast
  have sh: "map length (ensemble_parameters (critic_target engine3)) =
      map length (ensemble_parameters (critic engine3))"
    by (simp add: engine3_def)
  have c: "ensemble_parameters (critic s') ! 0 ! 0 = Fin 11"
    unfolding train_lib1_critic[OF t]
    by (simp add: engine3_def engine_defs ensemble_parameters_def linear_parameters_def inplace_def)
  have p: "ensemble_parameters (critic_target engine3) ! 0 ! 0 = Fin 10" "tau engine3 = Fin (5 / 10 ^ 3)"
    by (simp_all add: engine3_def engine_defs ensemble_parameters_def linear_parameters_def)
  from train_target_parameters[OF t sh] have
    "ensemble_parameters (critic_target s') ! 0 ! 0 =
       add_alpha (fused_add lib1 0 0)
         (mul32 (ensemble_parameters (critic_target engine3) ! 0 ! 0)
            (rnd32 (rnd64 (fsub (Fin 1) (tau engine3)))))
         (ensemble_parameters (critic s') ! 0 ! 0) (rnd32 (tau engine3))"
    by (simp add: engine3_def engine_defs ensemble_parameters_def linear_parameters_def)
  then have v: "ensemble_parameters (critic_target s') ! 0 ! 0 = Fin (10491003 / 1048576)"
    unfolding c p by (simp only: lib1_simps polyak_default)
  have "Fin (10491003 / 1048576) \<noteq> fadd (fmul (fsub (Fin 1) (Fin (5 / 10 ^ 3))) (Fin 10))
            (fmul (Fin (5 / 10 ^ 3)) (Fin 11))"
    by (simp add: fsub_def)
  with t c p v show ?thesis by (intro exI[of _ s']) simp
qed


section \<open>Warm-up rollouts\<close>

lemma select_action_warmup:
  assumes "num_timesteps s < learning_starts s"
  shows "select_action L s eps =
     Inr ([fst (action_space_sample L (env s))], [[Fin 0]], snd (action_space_sample L (env s)))"
  using assms by (simp add: select_action_def case_prod_beta)

lemma bind_Inr: "bind (Inr v) f = f v"
  by (simp add: bind_def)

lemma bind_map_sum: "bind (map_sum id g m) f = bind m (\<lambda>v. f (g v))"
  by (cases m) (simp_all add: bind_def)

lemma map_sum_bind: "map_sum id g (bind m f) = bind m (\<lambda>v. map_sum id g (f v))"
  by (cases m) (simp_all add: bind_def)

lemma log_record_actor:
  "log_record k v (s\<lparr>actor := a\<rparr>) = map_sum id (\<lambda>s'. s'\<lparr>actor := a\<rparr>) (log_record k v s)"
  by (simp add: log_record_def split: option.splits)

lemma log_record_mean_actor:
  "log_record_mean k v (s\<lparr>actor := a\<rparr>) = map_sum id (\<lambda>s'. s'\<lparr>actor := a\<rparr>) (log_record_mean k v s)"
  by (simp add: log_record_mean_def split: option.splits)

lemma calc_reward_actor:
  "calc_reward L (s\<lparr>actor := a\<rparr>) obsv acts e_rewards ex =
     map_sum id (map_prod id (\<lambda>s'. s'\<lparr>actor := a\<rparr>)) (calc_reward L s obsv acts e_rewards ex)"
  by (cases ex)
     (simp_all add: calc_reward_def log_record_actor log_record_mean_actor bind_map_sum map_sum_bind
        Let_def split_def)

lemma log_record_actor_env:
  "log_record k v (s\<lparr>actor := a, env := e\<rparr>) =
     map_sum id (\<lambda>s'. s'\<lparr>actor := a\<rparr>) (log_record k v (s\<lparr>env := e\<rparr>))"
  by (simp add: log_record_def split: option.splits)

lemma log_record_mean_actor_env:
  "log_record_mean k v (s\<lparr>actor := a, env := e\<rparr>) =
     map_sum id (\<lambda>s'. s'\<lparr>actor := a\<rparr>) (log_record_mean k v (s\<lparr>env := e\<rparr>))"
  by (simp add: log_record_mean_def split: option.splits)

lemma calc_reward_actor_env:
  "calc_reward L (s\<lparr>actor := a, env := e\<rparr>) obsv acts e_rewards ex =
     map_sum id (map_prod id (\<lambda>s'. s'\<lparr>actor := a\<rparr>))
       (calc_reward L (s\<lparr>env := e\<rparr>) obsv acts e_rewards ex)"
  by (cases ex)
     (simp_all add: calc_reward_def log_record_actor log_record_mean_actor log_record_actor_env
        log_record_mean_actor_env bind_map_sum map_sum_bind Let_def split_def)

lemma actor_update_last:
  "v\<lparr>actor := a, num_timesteps := n, replay_buffer := rb, last_obs := lo\<rparr> =
   v\<lparr>num_timesteps := n, replay_buffer := rb, last_obs := lo, actor := a\<rparr>"
  by simp

lemma collect_rollout_actor:
  assumes "num_timesteps s < learning_starts s"
  shows "collect_rollout L (s\<lparr>actor := a\<rparr>) eps' on_step =
     map_sum id (map_prod id (\<lambda>s'. s'\<lparr>actor := a\<rparr>)) (collect_rollout L s eps on_step)"
  using assms
  by (simp add: collect_rollout_def select_action_warmup split_def Let_def actor_update_last
       bind_Inr calc_reward_actor_env log_record_actor log_record_mean_actor bind_map_sum map_sum_bind)

text \<open>
  C7. During warm-up (\<open>num_timesteps < learning_starts\<close>) the action of a rollout step is the
  one the sampler of the action space returns, whatever the policy and its noise are: for
  two engines that differ only in their policy parameters and share the state of the
  environment (with the randomness of its sampler), the chosen action is the same, and so
  is the whole step: same result and same new state, up to the policy. That the sampler
  is uniform over the box is a property of the environment library.
\<close>

theorem warmup_action_ignores_policy:
  assumes "num_timesteps s < learning_starts s"
  shows "select_action L (s\<lparr>actor := a\<rparr>) eps' =
           Inr ([fst (action_space_sample L (env s))], [[Fin 0]], snd (action_space_sample L (env s))) \<and>
         select_action L (s\<lparr>actor := a\<rparr>) eps' = select_action L s eps \<and>
         collect_rollout L (s\<lparr>actor := a\<rparr>) eps' on_step =
           map_sum id (map_prod id (\<lambda>s'. s'\<lparr>actor := a\<rparr>)) (collect_rollout L s eps on_step)"
  using assms collect_rollout_actor[OF assms]
  by (simp add: select_action_warmup)

theorem warmup_action_ignores_policy_witness:
  "num_timesteps engine1 < learning_starts engine1 \<and>
   select_action lib1
     (engine1\<lparr>actor := Actor (zero_layer 1) (zero_layer 1) (zero_layer 1)
                           ((zero_layer 1)\<lparr>bias := [Fin 3]\<rparr>) (zero_layer 1) [Fin 1] [Fin 0]\<rparr>)
     (\<lambda>i j. 1) = Inr ([[Fin 0]], [[Fin 0]], env1) \<and>
   select_action lib1 engine1 no_noise = Inr ([[Fin 0]], [[Fin 0]], env1)"
proof -
  have w: "num_timesteps engine1 < learning_starts engine1" by (simp add: engine_defs)
  have e: "env engine1 = env1" by (simp add: engine_defs)
  note th = warmup_action_ignores_policy[OF w, of lib1
      "Actor (zero_layer 1) (zero_layer 1) (zero_layer 1)
                           ((zero_layer 1)\<lparr>bias := [Fin 3]\<rparr>) (zero_layer 1) [Fin 1] [Fin 0]"
      "\<lambda>i j. 1" no_noise None]
  from th[THEN conjunct1] have 1: "select_action lib1
     (engine1\<lparr>actor := Actor (zero_layer 1) (zero_layer 1) (zero_layer 1)
                           ((zero_layer 1)\<lparr>bias := [Fin 3]\<rparr>) (zero_layer 1) [Fin 1] [Fin 0]\<rparr>)
     (\<lambda>i j. 1) = Inr ([[Fin 0]], [[Fin 0]], env1)"
    by (simp add: e lib1_simps)
  from th[THEN conjunct2, THEN conjunct1, symmetric] 1
  have 2: "select_action lib1 engine1 no_noise = Inr ([[Fin 0]], [[Fin 0]], env1)"
    by (rule trans)
  from w 1 2 show ?thesis by blast
qed

section \<open>The policy\<close>

lemma get_action_Inr:
  assumes "get_action a x eps = Inr (action, lp)"
  obtains x_t where
    "x_t = rsample \<lparr>loc = fst (forward a x), scale = map (map exp32) (snd (forward a x))\<rparr> eps"
    and "Normal (fst (forward a x)) (map (map exp32) (snd (forward a x))) =
           Inr \<lparr>loc = fst (forward a x), scale = map (map exp32) (snd (forward a x))\<rparr>"
    and "list_all (list_all (\<lambda>u. \<not> is_nan u)) x_t"
    and "action = map (\<lambda>y. map2 add32 (map2 mul32 y (action_scale a)) (action_bias a))
                    (map (map tanh32) x_t)"
    and "lp = map (\<lambda>l. [sum32 l])
               (map2 (\<lambda>l y. map2 sub32 l
                        (map (\<lambda>(yj, sj). log32 (add32 (mul32 sj (sub32 (Fin 1) (mul32 yj yj))) epsilon))
                             (zip y (action_scale a))))
                  (map (\<lambda>(vr, m, s). map (\<lambda>(vj, mj, sj). log_prob1 mj sj vj) (zip vr (zip m s)))
                    (zip x_t (zip (fst (forward a x)) (map (map exp32) (snd (forward a x))))))
                  (map (map tanh32) x_t))"
  using assms
  by (auto simp: get_action_def bind_eq_Inr Let_def split_def Normal_def log_prob_def
        split: if_splits)

lemma length_forward [simp]:
  "length (fst (forward a x)) = length x" "length (snd (forward a x)) = length x"
  by (simp_all add: forward_def)

text \<open>The hyperbolic tangent of 20 is closer to 1 than to the float32 number below 1.\<close>

lemma tanh_20_eq: "tanh (20::real) = 1 - 2 / (exp 40 + 1)"
proof -
  define a where "a = exp (20::real)"
  have a: "0 < a" "a * a = exp 40" by (simp_all add: a_def mult_exp_exp)
  have "tanh (20::real) = (a - 1 / a) / (a + 1 / a)"
    by (simp add: tanh_altdef a_def exp_minus inverse_eq_divide)
  also have "\<dots> = ((a * a - 1) / a) / ((a * a + 1) / a)"
    using a(1) by (simp add: diff_divide_distrib add_divide_distrib)
  also have "\<dots> = (a * a - 1) / (a * a + 1)"
    using a(1) by simp
  also have "\<dots> = 1 - 2 / (exp 40 + 1)"
  proof -
    have "0 < exp (40::real) + 1" using exp_gt_zero[of "40::real"] by linarith
    then have "(exp (40::real) - 1) / (exp 40 + 1) + 2 / (exp 40 + 1) = 1"
      by (simp add: add_divide_distrib[symmetric])
    then show ?thesis unfolding a(2) by linarith
  qed
  finally show ?thesis .
qed

lemma tanh_20_bounds: "1 - 1 / 2 ^ 25 < tanh (20::real)" "tanh (20::real) < 1"
proof -
  have "(2::real) \<le> exp 1" using exp_ge_add_one_self[of "1::real"] by simp
  then have "(2::real) ^ 40 \<le> exp 1 ^ 40" by (intro power_mono) simp_all
  also have "\<dots> = exp (40::real)" by (simp add: exp_of_nat_mult[symmetric])
  finally have e: "(2::real) ^ 40 \<le> exp 40" .
  have "2 / (exp (40::real) + 1) \<le> 2 / 2 ^ 40"
    using e by (intro divide_left_mono) simp_all
  also have "\<dots> < 1 / 2 ^ 25" by simp
  finally show "1 - 1 / 2 ^ 25 < tanh (20::real)" unfolding tanh_20_eq by simp
  show "tanh (20::real) < 1" by (rule tanh_real_lt_1)
qed

lemma round32_tanh_20: "round32 (tanh 20) = Fin 1"
proof -
  define t where "t = tanh (20::real)"
  have b: "1 - 1 / 2 ^ 25 < t" "t < 1" using tanh_20_bounds by (simp_all add: t_def)
  have f: "\<lfloor>t * 16777216\<rfloor> = 16777215"
    using b by (simp add: floor_eq_iff)
  have r: "round_even (t * 16777216) = 16777216"
    unfolding round_even_def Let_def f using b by simp
  have "round32 t = Fin 1"
    apply (subst round32_eq[where e = "- 1"])
    using b apply simp
    using b apply simp
     apply simp
    using r apply (simp add: Let_def power_int_minus divide_simps)
    done
  then show ?thesis by (simp add: t_def)
qed

lemma actor5:
  "fst (Actor_init env5 1 rng5) =
     Actor (zero_layer 1) (zero_layer 1) (zero_layer 1) ((zero_layer 1)\<lparr>bias := [Fin 20]\<rparr>)
       (zero_layer 1) [Fin (209715 / 2 ^ 22)] [Fin (- 5190451 / 2 ^ 20)]"
proof -
  have 1: "sub32 (Fin (- 10276045 / 2 ^ 21)) (Fin (- 5)) = Fin (209715 / 2 ^ 21)"
    by (simp add: sub32_def fsub_def, subst round32_eq[where e = "- 4"]; simp add: round_even_def Let_def)
  have 2: "div32 (Fin (209715 / 2 ^ 21)) (Fin 2) = Fin (209715 / 2 ^ 22)"
    by (simp add: div32_def, subst round32_eq[where e = "- 5"]; simp add: round_even_def Let_def)
  have 3: "add32 (Fin (- 10276045 / 2 ^ 21)) (Fin (- 5)) = Fin (- 5190451 / 2 ^ 19)"
    by (simp add: add32_def, subst round32_eq[where e = 3]; simp add: round_even_def Let_def)
  have 4: "div32 (Fin (- 5190451 / 2 ^ 19)) (Fin 2) = Fin (- 5190451 / 2 ^ 20)"
    by (simp add: div32_def, subst round32_eq[where e = 2]; simp add: round_even_def Let_def)
  show ?thesis
    unfolding Actor_init_def env5_def
    by (simp only: env.simps list.map zip_Cons_Cons zip_Nil prod.case 1 2 3 4)
       (simp add: Linear_def draw_def rng5_def zero_layer_def)
qed

text \<open>
  C8. The policy that the constructor builds for the action space \<open>[-5, -4.9]\<close> of \<open>env5\<close>
  from the generator \<open>rng5\<close> has the mean 20 for its raw sample. With no noise,
  \<open>get_action\<close> returns: the tangent of the sample is 1 in float32, the scale is
  \<open>209715 / 2 ^ 22\<close> and the bias \<open>- 5190451 / 2 ^ 20\<close>, and their rounded sum, the action
  \<open>- 2569011 / 2 ^ 19\<close>, is greater than the upper bound \<open>- 10276045 / 2 ^ 21\<close> of the action
  space.
\<close>

theorem get_action_leaves_box:
  "\<exists>lp. get_action (fst (Actor_init env5 1 rng5)) [[Fin 0]] no_noise =
          Inr ([[Fin (- 2569011 / 2 ^ 19)]], lp) \<and>
        action_low env5 = [Fin (- 5)] \<and> action_high env5 = [Fin (- 10276045 / 2 ^ 21)] \<and>
        fle (Fin (- 5)) (Fin (- 10276045 / 2 ^ 21)) \<and>
        \<not> fle (Fin (- 2569011 / 2 ^ 19)) (Fin (- 10276045 / 2 ^ 21))"
proof -
  have 1: "round32 20 = Fin 20"
    by (subst round32_eq[where e = 4]; simp add: round_even_def Let_def)
  have 2: "mul32 (Fin 1) (Fin (209715 / 2 ^ 22)) = Fin (209715 / 2 ^ 22)"
    by (simp add: mul32_def, subst round32_eq[where e = "- 5"]; simp add: round_even_def Let_def)
  have 3: "add32 (Fin (209715 / 2 ^ 22)) (Fin (- 5190451 / 2 ^ 20)) = Fin (- 2569011 / 2 ^ 19)"
    by (simp add: add32_def, subst round32_eq[where e = 2]; simp add: round_even_def Let_def)
  have m: "forward (Actor (zero_layer 1) (zero_layer 1) (zero_layer 1) ((zero_layer 1)\<lparr>bias := [Fin 20]\<rparr>)
       (zero_layer 1) a b) [[Fin 0]] = ([[Fin 20]], [[Fin 0]])" for a b
    by (simp add: forward_def zero_layer_def linear_apply_def relu_def fmax_def fmin_def
      clamp_def LOG_STD_MIN_def LOG_STD_MAX_def fsum_def)
  have a: "add32 (mul32 (Fin 1) (Fin (209715 / 4194304))) (Fin (- (5190451 / 1048576))) =
      Fin (- (2569011 / 524288))"
    using 2 3 by simp
  have "\<exists>lp. get_action (fst (Actor_init env5 1 rng5)) [[Fin 0]] no_noise =
          Inr ([[Fin (- 2569011 / 2 ^ 19)]], lp)"
    unfolding actor5 get_action_def m
    apply (simp add: Normal_def bind_def rsample_def no_noise_def log_prob_def Let_def exp32_def
      tanh32_def add32_def[of "Fin 20"] mul32_def[of "Fin 0"] 1 round32_tanh_20 del: One_nat_def)
    apply (simp only: a)
    done
  moreover have "\<not> fle (Fin (- 2569011 / 2 ^ 19)) (Fin (- 10276045 / 2 ^ 21))"
    by (simp add: fle_def)
  moreover have "fle (Fin (- 5)) (Fin (- 10276045 / 2 ^ 21))"
    by (simp add: fle_def)
  ultimately show ?thesis by (simp add: env5_def)
qed

text \<open>
  C9 (amended). When \<open>get_action\<close> returns, it returns one log-probability per sample: the
  float32 sum, over the action dimensions, of the Gaussian log-density of the raw sample
  \<open>v = mean + eps * std\<close> as \<open>Normal.log_prob\<close> computes it,
  \<open>-((v - mean) ** 2) / (2 * std ** 2) - log(std) - log(sqrt(2 * pi))\<close>, minus the correction
  \<open>log(scale * (1 - tanh(v) ** 2) + epsilon)\<close>, where every operation, the exponential of
  the log-std, the logarithms and the tangent included, is the rounded operation of float32,
  and \<open>epsilon\<close>, the float32 number next to \<open>1e-6\<close>, is not zero. The action has as many
  dimensions as the policy has scales.
\<close>

theorem get_action_log_prob:
  assumes ga: "get_action a x eps = Inr (action, lp)"
    and i: "i < length x"
    and n: "length (fst (forward a x) ! i) = n" "length (snd (forward a x) ! i) = n"
      "length (action_scale a) = n"
  shows "length lp = length x \<and>
     lp ! i =
       [sum32 (map (\<lambda>j.
           let m = fst (forward a x) ! i ! j;
               s = exp32 (snd (forward a x) ! i ! j);
               v = add32 m (mul32 (Fin (eps i j)) s);
               d = sub32 v m
           in sub32
                (sub32 (sub32 (div32 (fneg (mul32 d d)) (mul32 (Fin 2) (mul32 s s))) (log32 s))
                   log_sqrt_2pi)
                (log32 (add32 (mul32 (action_scale a ! j)
                                 (sub32 (Fin 1) (mul32 (tanh32 v) (tanh32 v))))
                          epsilon)))
          [0..<n])] \<and>
     epsilon \<noteq> Fin 0"
proof -
  let ?M = "fst (forward a x)" and ?S = "map (map exp32) (snd (forward a x))"
  define xt where "xt j = add32 (?M ! i ! j) (mul32 (Fin (eps i j)) (exp32 (snd (forward a x) ! i ! j)))" for j
  from ga obtain x_t where
    x_t: "x_t = rsample \<lparr>loc = ?M, scale = ?S\<rparr> eps"
    and lp: "lp = map (\<lambda>l. [sum32 l])
               (map2 (\<lambda>l y. map2 sub32 l
                        (map (\<lambda>(yj, sj). log32 (add32 (mul32 sj (sub32 (Fin 1) (mul32 yj yj))) epsilon))
                             (zip y (action_scale a))))
                  (map (\<lambda>(vr, m, s). map (\<lambda>(vj, mj, sj). log_prob1 mj sj vj) (zip vr (zip m s)))
                    (zip x_t (zip ?M ?S)))
                  (map (map tanh32) x_t))"
    by (rule get_action_Inr)
  have lx: "length x_t = length x" by (simp add: x_t rsample_def)
  have Si: "?S ! i = map exp32 (snd (forward a x) ! i)" using i by simp
  have xi: "x_t ! i = map xt [0..<n]"
    using i n by (auto simp: x_t rsample_def nth_enumerate_eq Si xt_def intro!: nth_equalityI)
  have "lp ! i = [sum32 (map2 sub32
       (map (\<lambda>(vj, mj, sj). log_prob1 mj sj vj) (zip (x_t ! i) (zip (?M ! i) (?S ! i))))
       (map (\<lambda>(yj, sj). log32 (add32 (mul32 sj (sub32 (Fin 1) (mul32 yj yj))) epsilon))
               (zip (map tanh32 (x_t ! i)) (action_scale a))))]"
    using i lx by (simp add: lp)
  also have "map2 sub32
       (map (\<lambda>(vj, mj, sj). log_prob1 mj sj vj) (zip (x_t ! i) (zip (?M ! i) (?S ! i))))
       (map (\<lambda>(yj, sj). log32 (add32 (mul32 sj (sub32 (Fin 1) (mul32 yj yj))) epsilon))
               (zip (map tanh32 (x_t ! i)) (action_scale a))) =
     map (\<lambda>j. sub32 (log_prob1 (?M ! i ! j) (exp32 (snd (forward a x) ! i ! j)) (xt j))
                (log32 (add32 (mul32 (action_scale a ! j)
                                 (sub32 (Fin 1) (mul32 (tanh32 (xt j)) (tanh32 (xt j)))))
                          epsilon)))
         [0..<n]"
    using n by (auto simp: xi Si intro!: nth_equalityI)
  finally have "lp ! i = [sum32 (map (\<lambda>j. sub32 (log_prob1 (?M ! i ! j) (exp32 (snd (forward a x) ! i ! j)) (xt j))
                (log32 (add32 (mul32 (action_scale a ! j)
                                 (sub32 (Fin 1) (mul32 (tanh32 (xt j)) (tanh32 (xt j)))))
                          epsilon)))
         [0..<n])]" .
  moreover have "length lp = length x" using lx by (simp add: lp)
  moreover have "epsilon \<noteq> Fin 0" by (simp add: epsilon_def)
  ultimately show ?thesis by (simp add: log_prob1_def Let_def xt_def)
qed

lemma forward_engine1:
  "forward (actor engine1) [[Fin 0]] = ([[Fin 0]], [[Fin 0]])"
  by (simp add: engine_defs forward_def linear_apply_def relu_def fmax_def fmin_def
    clamp_def LOG_STD_MIN_def LOG_STD_MAX_def fsum_def Let_def)

theorem get_action_log_prob_witness:
  "\<exists>action lp. get_action (actor engine1) [[Fin 0]] no_noise = Inr (action, lp) \<and>
     length lp = 1 \<and>
     lp ! 0 = [sum32 [sub32 (Fin (- (7708615 / 2 ^ 23))) (log32 (Fin (1048577 / 2 ^ 20)))]]"
proof -
  obtain lp where g: "get_action (actor engine1) [[Fin 0]] no_noise = Inr ([[Fin 0]], lp)"
    using get_action_engine1(1) by blast
  have c: "round32 (- (7708615 / 8388608)) = Fin (- (7708615 / 8388608))"
    by (subst round32_eq[where e = "- 1"]; simp add: round_even_def Let_def)
  have e: "round32 (8796101818301 / 8796093022208) = Fin (1048577 / 1048576)"
    by (subst round32_eq[where e = 0]; simp add: round_even_def Let_def)
  have s: "action_scale (actor engine1) = [Fin 1]" by (simp add: engine_defs)
  from get_action_log_prob[OF g, of 0 1] have "length lp = 1 \<and>
     lp ! 0 = [sum32 [sub32 (Fin (- (7708615 / 2 ^ 23))) (log32 (Fin (1048577 / 2 ^ 20)))]]"
    by (simp add: forward_engine1 s no_noise_def exp32_def add32_def mul32_def sub32_def[of "Fin 0"]
      sub32_def[of "Fin 1"] div32_def tanh32_def log32_def[of "Fin 1"] fsub_def epsilon_def
      log_sqrt_2pi_def c e)
  with g show ?thesis by blast
qed


text \<open>
  The value is not the one of the same expression over the real numbers. For the action
  space of \<open>env6\<close> and the raw sample 20, the tangent is 1 in float32, the correction is
  \<open>log(epsilon)\<close> whatever the scale, and the log-probability is at least \<open>-3\<close>; over the
  real numbers \<open>scale * (1 - tanh(20)\<^sup>2)\<close> is more than 81 and the expression is at most
  \<open>-4\<close>.
\<close>

lemma actor6:
  "fst (Actor_init env6 1 rng5) =
     Actor (zero_layer 1) (zero_layer 1) (zero_layer 1) ((zero_layer 1)\<lparr>bias := [Fin 20]\<rparr>)
       (zero_layer 1) [Fin (2 ^ 100)] [Fin 0]"
proof -
  have 1: "sub32 (Fin (2 ^ 100)) (Fin (- (2 ^ 100))) = Fin (2 ^ 101)"
    using round32_pow(2) by (simp add: sub32_def fsub_def)
  have 2: "div32 (Fin (2 ^ 101)) (Fin 2) = Fin (2 ^ 100)"
    using round32_pow(1) by (simp add: div32_def)
  have 3: "add32 (Fin (2 ^ 100)) (Fin (- (2 ^ 100))) = Fin 0"
    by (simp add: add32_def)
  have 4: "div32 (Fin 0) (Fin 2) = Fin 0"
    by (simp add: div32_def)
  show ?thesis
    unfolding Actor_init_def env6_def
    by (simp only: env.simps list.map zip_Cons_Cons zip_Nil prod.case 1 2 3 4)
       (simp add: Linear_def draw_def rng5_def zero_layer_def)
qed

lemma get_action_actor6:
  "get_action (fst (Actor_init env6 1 rng5)) [[Fin 0]] no_noise =
     Inr ([[Fin (2 ^ 100)]],
          [[add32 (Fin 0) (sub32 (Fin (- (7708615 / 2 ^ 23))) (round32 (ln (8796093 / 2 ^ 43))))]])"
proof -
  have 1: "round32 20 = Fin 20"
    by (subst round32_eq[where e = 4]; simp add: round_even_def Let_def)
  have m: "forward (Actor (zero_layer 1) (zero_layer 1) (zero_layer 1) ((zero_layer 1)\<lparr>bias := [Fin 20]\<rparr>)
       (zero_layer 1) a b) [[Fin 0]] = ([[Fin 20]], [[Fin 0]])" for a b
    by (simp add: forward_def zero_layer_def linear_apply_def relu_def fmax_def fmin_def
      clamp_def LOG_STD_MIN_def LOG_STD_MAX_def fsum_def)
  have x: "add32 (Fin 20) (mul32 (Fin 0) (Fin 1)) = Fin 20"
    by (simp add: add32_def mul32_def 1)
  have t: "tanh32 (Fin 20) = Fin 1" by (simp add: tanh32_def round32_tanh_20)
  have a: "add32 (mul32 (Fin 1) (Fin 1267650600228229401496703205376)) (Fin 0) =
      Fin 1267650600228229401496703205376"
    using round32_pow(1) by (simp add: add32_def mul32_def)
  have c: "round32 (- (7708615 / 8388608)) = Fin (- (7708615 / 8388608))"
    by (subst round32_eq[where e = "- 1"]; simp add: round_even_def Let_def)
  have lp1: "log_prob1 (Fin 20) (Fin 1) (Fin 20) = Fin (- (7708615 / 8388608))"
    using c by (simp add: log_prob1_def Let_def sub32_def mul32_def div32_def log32_def
      fsub_def log_sqrt_2pi_def)
  have e: "round32 (8796093 / 8796093022208) = Fin (8796093 / 8796093022208)"
    by (subst round32_eq[where e = "- 20"]; simp add: round_even_def Let_def)
  have c1: "log32 (add32 (mul32 (Fin 1267650600228229401496703205376)
                (sub32 (Fin 1) (mul32 (Fin 1) (Fin 1)))) epsilon) =
      round32 (ln (8796093 / 8796093022208))"
    using e by (simp add: log32_def add32_def mul32_def sub32_def fsub_def epsilon_def)
  show ?thesis
    unfolding actor6 get_action_def m
    by (simp add: Normal_def bind_def rsample_def no_noise_def log_prob_def Let_def
       exp32_def[of "Fin 0"] sum32_def del: One_nat_def)
       (simp add: x t a lp1 c1)
qed

lemma ln_epsilon_bounds:
  "- (2 ^ 20) \<le> ln (8796093 / 8796093022208 :: real)" "ln (8796093 / 8796093022208 :: real) \<le> - (1 / 2)"
proof -
  have "ln (8796093022208 / 8796093 :: real) \<le> 8796093022208 / 8796093 - 1"
    by (rule ln_le_minus_one) simp
  moreover have "ln (8796093022208 / 8796093 :: real) = - ln (8796093 / 8796093022208 :: real)"
    using ln_inverse[of "8796093 / 8796093022208 :: real"] by simp
  ultimately show "- (2 ^ 20) \<le> ln (8796093 / 8796093022208 :: real)" by simp
  have "ln (8796093 / 8796093022208 :: real) \<le> 8796093 / 8796093022208 - 1"
    by (rule ln_le_minus_one) simp
  then show "ln (8796093 / 8796093022208 :: real) \<le> - (1 / 2)" by simp
qed

lemma saturated_log_prob_float:
  "\<exists>q. add32 (Fin 0) (sub32 (Fin (- (7708615 / 2 ^ 23))) (round32 (ln (8796093 / 2 ^ 43)))) = Fin q \<and>
       - 3 \<le> q"
proof -
  define l :: real where "l = ln (8796093 / 8796093022208)"
  have l: "- (2 ^ 20) \<le> l" "l \<le> - (1 / 2)" using ln_epsilon_bounds by (simp_all add: l_def)
  have "\<bar>l\<bar> \<le> 2 ^ 126" using l by simp
  from round32_error[OF this] obtain q1 where
    q1: "round32 l = Fin q1" "\<bar>q1 - l\<bar> \<le> \<bar>l\<bar> / 2 ^ 24 + 1 / 2 ^ 150" by blast
  have b1: "q1 \<le> 0" "- (2 ^ 21) \<le> q1" using q1(2) l by (simp_all add: abs_if split: if_splits)
  define w where "w = - (7708615 / 2 ^ 23) - q1"
  have w: "- 1 \<le> w" "w \<le> 2 ^ 21" using b1 by (simp_all add: w_def)
  then have "\<bar>w\<bar> \<le> 2 ^ 126" by simp
  from round32_error[OF this] obtain q2 where
    q2: "round32 w = Fin q2" "\<bar>q2 - w\<bar> \<le> \<bar>w\<bar> / 2 ^ 24 + 1 / 2 ^ 150" by blast
  have b2: "- 2 \<le> q2" "q2 \<le> 2 ^ 22" using q2(2) w by (simp_all add: abs_if split: if_splits)
  then have "\<bar>q2\<bar> \<le> 2 ^ 126" by simp
  from round32_error[OF this] obtain q3 where
    q3: "round32 q2 = Fin q3" "\<bar>q3 - q2\<bar> \<le> \<bar>q2\<bar> / 2 ^ 24 + 1 / 2 ^ 150" by blast
  have b3: "- 3 \<le> q3" using q3(2) b2 by (simp add: abs_if split: if_splits)
  have "add32 (Fin 0) (sub32 (Fin (- (7708615 / 2 ^ 23))) (round32 (ln (8796093 / 2 ^ 43)))) = Fin q3"
    using q1(1) q2(1) q3(1) by (simp add: l_def w_def add32_def sub32_def fsub_def)
  with b3 show ?thesis by blast
qed

lemma saturated_log_prob_exact:
  "ln (gaussian_density 20 1 20) - ln (2 ^ 100 * (1 - (tanh 20)\<^sup>2) + 1 / 10 ^ 6) \<le> - 4"
proof -
  have "1 \<le> sqrt (2 * pi)" using pi_ge_two by (simp add: real_le_rsqrt)
  then have g: "ln (gaussian_density 20 1 20) \<le> 0"
    by (simp add: gaussian_density_def ln_div)
  have "exp (1::real) ^ 40 \<le> 3 ^ 40" by (intro power_mono exp_le) simp
  then have e40: "exp (40::real) \<le> 3 ^ 40" by (simp add: exp_of_nat_mult[symmetric])
  have "exp (1::real) ^ 4 \<le> 3 ^ 4" by (intro power_mono exp_le) simp
  then have e4: "exp (4::real) \<le> 81" by (simp add: exp_of_nat_mult[symmetric])
  define t where "t = tanh (20::real)"
  have t: "0 \<le> t" "t < 1" "1 - t = 2 / (exp 40 + 1)"
    using tanh_20_eq tanh_real_lt_1[of 20] by (simp_all add: t_def)
  have "2 / (3 ^ 40 + 1) \<le> 2 / (exp (40::real) + 1)"
    using e40 exp_gt_zero[of "40::real"] by (intro divide_left_mono) (simp_all add: add_pos_pos)
  then have 1: "2 / (3 ^ 40 + 1) \<le> 1 - t" using t(3) by simp
  have "t\<^sup>2 \<le> t" using t(1,2) by (simp add: power2_eq_square mult_left_le)
  then have 2: "1 - t \<le> 1 - t\<^sup>2" by simp
  have "(81::real) \<le> 2 ^ 100 * (2 / (3 ^ 40 + 1))" by simp
  also have "\<dots> \<le> 2 ^ 100 * (1 - t\<^sup>2)" using 1 2 by (intro mult_left_mono) simp_all
  finally have "exp 4 \<le> 2 ^ 100 * (1 - t\<^sup>2) + 1 / 10 ^ 6" using e4 by simp
  moreover from this have "0 < 2 ^ 100 * (1 - t\<^sup>2) + 1 / 10 ^ 6"
    using exp_gt_zero[of "4::real"] by linarith
  ultimately have "4 \<le> ln (2 ^ 100 * (1 - t\<^sup>2) + 1 / 10 ^ 6)"
    by (simp only: ln_ge_iff)
  with g show ?thesis by (simp add: t_def)
qed

lemma forward_actor6:
  "forward (fst (Actor_init env6 1 rng5)) [[Fin 0]] = ([[Fin 20]], [[Fin 0]])"
  unfolding actor6
  by (simp add: forward_def zero_layer_def linear_apply_def relu_def fmax_def fmin_def
      clamp_def LOG_STD_MIN_def LOG_STD_MAX_def fsum_def)

theorem get_action_log_prob_inexact:
  "\<exists>action lp. get_action (fst (Actor_init env6 1 rng5)) [[Fin 0]] no_noise = Inr (action, [[lp]]) \<and>
     forward (fst (Actor_init env6 1 rng5)) [[Fin 0]] = ([[Fin 20]], [[Fin 0]]) \<and>
     rsample \<lparr>loc = [[Fin 20]], scale = [[exp32 (Fin 0)]]\<rparr> no_noise = [[Fin 20]] \<and>
     action_scale (fst (Actor_init env6 1 rng5)) = [Fin (2 ^ 100)] \<and>
     lp \<noteq> Fin (ln (gaussian_density 20 1 20) - ln (2 ^ 100 * (1 - (tanh 20)\<^sup>2) + 1 / 10 ^ 6))"
proof -
  obtain q where q: "add32 (Fin 0) (sub32 (Fin (- (7708615 / 2 ^ 23))) (round32 (ln (8796093 / 2 ^ 43)))) = Fin q"
    and b: "- 3 \<le> q"
    using saturated_log_prob_float by blast
  have g: "get_action (fst (Actor_init env6 1 rng5)) [[Fin 0]] no_noise = Inr ([[Fin (2 ^ 100)]], [[Fin q]])"
    unfolding get_action_actor6 q ..
  have 1: "round32 20 = Fin 20"
    by (subst round32_eq[where e = 4]; simp add: round_even_def Let_def)
  have r: "rsample \<lparr>loc = [[Fin 20]], scale = [[exp32 (Fin 0)]]\<rparr> no_noise = [[Fin 20]]"
    by (simp add: rsample_def no_noise_def exp32_def add32_def mul32_def 1)
  have "Fin q \<noteq> Fin (ln (gaussian_density 20 1 20) - ln (2 ^ 100 * (1 - (tanh 20)\<^sup>2) + 1 / 10 ^ 6))"
    using b saturated_log_prob_exact by simp
  moreover have "action_scale (fst (Actor_init env6 1 rng5)) = [Fin (2 ^ 100)]"
    by (simp only: actor6 action_scale.simps)
  ultimately show ?thesis using g r forward_actor6 by blast
qed


section \<open>The reward in the training step\<close>

lemma entries_Some: "logger s = Some es \<Longrightarrow> entries s = es"
  by (simp add: entries_def)

lemma train_stage3:
  assumes "train L s rd e1 e2 e3 = Inr s'"
  obtains obsv next_obsv s4 coef acts lp ct fwd wld eta r s5 target loss where
    "flatten_obs (observations rd) = Inr obsv"
    and "flatten_obs (next_observations rd) = Inr next_obsv"
    and "actor s4 = actor s" and "mc_network s4 = mc_network s'"
    and "get_action (actor s) next_obsv e2 = Inr (acts, lp)"
    and "ensemble_forward (critic_target s) next_obsv acts = Inr ct"
    and "mc_forward L (mc_network s4) obsv acts = Inr (fwd, wld)"
    and "map_of (mc s) ''reward_eta'' = Some eta"
    and "r = map2 (map2 fadd) (rewards rd) (map (\<lambda>row. [fmul (fmean row) eta]) (kl_divergence L fwd wld))"
    and "calc_reward L s4 obsv acts (rewards rd) False = Inr (r, s5)"
    and "next_q_value L s4 rd obsv next_obsv coef e2 = Inr (target, s5)"
    and "target = map (\<lambda>(r, d, m). fadd r (fmul (fmul (fsub (Fin 1) d) (gamma s)) m))
                   (zip (concat r)
                      (zip (concat (dones rd))
                         (concat (map2 (map2 fsub) (min_dim0 ct) (map (map (fmul coef)) lp)))))"
    and "crit_loss (critic s) obsv (actions rd) target = Inr loss"
    and "Record_mean ''mc/kld'' (fmean (concat (map (\<lambda>row. [fmean row]) (kl_divergence L fwd wld))))
           \<in> set (entries s')"
    and "Record_mean ''mc/reward'' (fmean (concat r)) \<in> set (entries s')"
    and "Record ''train/critic_loss'' loss \<in> set (entries s')"
proof -
  from assms obtain obsv next_obsv s1 s2 coef s3 s4 target s5 s6 s7 where
    1: "log_record ''train/n_updates'' (Fin (real_of_int (n_updates s + 1)))
        (s\<lparr>n_updates := n_updates s + 1\<rparr>) = Inr s1"
    and fo: "flatten_obs (observations rd) = Inr obsv"
    and fn: "flatten_obs (next_observations rd) = Inr next_obsv"
    and 2: "train_mc L s1 obsv next_obsv (actions rd) = Inr s2"
    and 3: "update_ent_coef L s2 obsv e1 = Inr (coef, s3)"
    and 4: "log_record ''train/ent_coef'' coef s3 = Inr s4"
    and 5: "next_q_value L s4 rd obsv next_obsv coef e2 = Inr (target, s5)"
    and 6: "update_critic L s5 rd obsv target = Inr s6"
    and 7: "update_actor L s6 obsv coef e3 = Inr s7"
    and 8: "s' = polyak_update L s7"
    unfolding train_iff by blast
  have a1: "actor s1 = actor s" "critic_target s1 = critic_target s" "mc s1 = mc s"
    "gamma s1 = gamma s" "critic s1 = critic s"
    using 1 by (auto simp: log_record_iff)
  have a2: "actor s2 = actor s1" "critic_target s2 = critic_target s1" "mc s2 = mc s1"
    "gamma s2 = gamma s1" "critic s2 = critic s1"
    using 2 by (auto simp: train_mc_iff)
  have a3: "actor s3 = actor s2" "critic_target s3 = critic_target s2" "mc s3 = mc s2"
    "gamma s3 = gamma s2" "critic s3 = critic s2" "mc_network s3 = mc_network s2"
    using 3 by (cases "ent_coef s2"; auto simp: update_ent_coef_Auto_iff update_ent_coef_Coef_iff)+
  have a4: "actor s4 = actor s3" "critic_target s4 = critic_target s3" "mc s4 = mc s3"
    "gamma s4 = gamma s3" "critic s4 = critic s3" "mc_network s4 = mc_network s3"
    using 4 by (auto simp: log_record_iff)
  from 5 obtain acts lp ct r where
    g: "get_action (actor s4) next_obsv e2 = Inr (acts, lp)"
    and ef: "ensemble_forward (critic_target s4) next_obsv acts = Inr ct"
    and cr: "calc_reward L s4 obsv acts (rewards rd) False = Inr (r, s5)"
    and tg: "target = map (\<lambda>(r, d, m). fadd r (fmul (fmul (fsub (Fin 1) d) (gamma s4)) m))
                   (zip (concat r)
                      (zip (concat (dones rd))
                         (concat (map2 (map2 fsub) (min_dim0 ct) (map (map (fmul coef)) lp)))))"
    unfolding next_q_value_iff by blast
  from cr obtain fwd wld eta es where
    mf: "mc_forward L (mc_network s4) obsv acts = Inr (fwd, wld)"
    and et: "map_of (mc s4) ''reward_eta'' = Some eta"
    and lg4: "logger s4 = Some es"
    and r: "r = map2 (map2 fadd) (rewards rd) (map (\<lambda>row. [fmul (fmean row) eta]) (kl_divergence L fwd wld))"
    and s5: "s5 = s4\<lparr>logger := Some (es @ map (\<lambda>(k, v). if False then Record k v else Record_mean k v)
               [(''mc/i_reward'', fmean (concat (map (\<lambda>row. [fmul (fmean row) eta]) (kl_divergence L fwd wld)))),
                (''mc/e_reward'', fmean (concat (rewards rd))),
                (''mc/kld'', fmean (concat (map (\<lambda>row. [fmean row]) (kl_divergence L fwd wld)))),
                (''mc/reward'', fmean (concat r))])\<rparr>"
    unfolding calc_reward_iff by blast
  from 6 obtain loss es5 where
    cl: "crit_loss (critic s5) obsv (actions rd) target = Inr loss"
    and lg5: "logger s5 = Some es5"
    and s6: "logger s6 = Some (es5 @ [Record ''train/critic_loss'' loss,
                                       Record ''train/train_rewards'' (fmean (concat (rewards rd)))])"
       "mc_network s6 = mc_network s5"
    by (auto simp: update_critic_iff)
  from 7 obtain es6 v where lg6: "logger s6 = Some es6"
    and s7: "logger s7 = Some (es6 @ [Record ''train/actor_loss'' v])" "mc_network s7 = mc_network s6"
    by (auto simp: update_actor_iff)
  have e': "entries s' = es5 @ [Record ''train/critic_loss'' loss,
          Record ''train/train_rewards'' (fmean (concat (rewards rd))), Record ''train/actor_loss'' v]"
    using s6(1) lg6 s7(1) by (simp add: 8 polyak_update_def entries_def)
  have es5: "es5 = es @ [Record_mean ''mc/i_reward'' (fmean (concat (map (\<lambda>row. [fmul (fmean row) eta]) (kl_divergence L fwd wld)))),
                Record_mean ''mc/e_reward'' (fmean (concat (rewards rd))),
                Record_mean ''mc/kld'' (fmean (concat (map (\<lambda>row. [fmean row]) (kl_divergence L fwd wld)))),
                Record_mean ''mc/reward'' (fmean (concat r))]"
    using lg5 by (simp add: s5)
  have mn: "mc_network s4 = mc_network s'"
    using s6(2) s7(2) by (simp add: 8 polyak_update_def s5)
  have c5: "critic s5 = critic s" "gamma s4 = gamma s" "actor s4 = actor s"
    "critic_target s4 = critic_target s" "mc s4 = mc s"
    by (simp_all add: s5 a1 a2 a3 a4)
  show thesis
    by (rule that[of obsv next_obsv s4 acts lp ct fwd wld eta r s5 coef target loss])
       (use fo fn g ef mf et r cr 5 tg cl mn in \<open>simp_all add: c5 e' es5\<close>)
qed

end
